theory Spec2Isabelle
  imports Main "HOL-Library.Word"
begin

unbundle bit_operations_syntax

section \<open>Native GPIO pins of Grbl_Esp32: Pins/GPIOPinDetail.cpp\<close>

text \<open>
  A shallow embedding of \<^verbatim>\<open>Pins::GPIOPinDetail\<close>. The object is a record, the
  hardware behind the three \<^verbatim>\<open>extern "C"\<close> primitives and the interrupt controller is
  an explicit state, and a failed \<^verbatim>\<open>Assert\<close> is an error value returned together
  with the state the exception leaves behind.
\<close>

subsection \<open>Machine types and Arduino constants\<close>

type_synonym uint8_t = "8 word"
type_synonym c_int = "32 word"

text \<open>
  \<^verbatim>\<open>HIGH\<close>, \<^verbatim>\<open>LOW\<close> and the pin mode bits come from \<^verbatim>\<open>Arduino.h\<close> of the ESP32
  Arduino core, which is no file of the repository. No proof below unfolds the four
  mode bits.
\<close>

definition HIGH :: c_int where "HIGH = 1"
definition LOW :: c_int where "LOW = 0"

definition INPUT :: uint8_t where "INPUT = 0x01"
definition OUTPUT :: uint8_t where "OUTPUT = 0x02"
definition PULLUP :: uint8_t where "PULLUP = 0x04"
definition PULLDOWN :: uint8_t where "PULLDOWN = 0x08"

subsection \<open>Flag sets\<close>

text \<open>
  Modelled from the spec: \<^verbatim>\<open>PinCapabilities.h\<close> and \<^verbatim>\<open>PinAttributes.h\<close> are not among
  the sources. The spec describes both classes as sets of independent flags with
  \<^verbatim>\<open>None\<close> the empty one; \<^verbatim>\<open>a | b\<close> is the union and \<^verbatim>\<open>a.has(f)\<close> asks whether
  the flag is in the set.
\<close>

datatype capability =
  C_Native | C_Input | C_Output | C_PullUp | C_PullDown
  | C_ADC | C_DAC | C_PWM | C_ISR | C_UART

datatype attribute =
  A_Input | A_Output | A_PullUp | A_PullDown | A_ActiveLow | A_InitialOn | A_ISR

type_synonym PinCapabilities = "capability set"
type_synonym PinAttributes = "attribute set"

definition PinCapabilities_None :: PinCapabilities where
  "PinCapabilities_None = {}"

definition PinAttributes_None :: PinAttributes where
  "PinAttributes_None = {}"

definition has :: "PinAttributes \<Rightarrow> attribute \<Rightarrow> bool" where
  "has attrs f = (f \<in> attrs)"

text \<open>
  \<^verbatim>\<open>PinAttributes::validateWith\<close> and \<^verbatim>\<open>PinAttributes::conflictsWith\<close> are declared
  outside the sources. \<open>setAttr\<close> below takes the two predicates as arguments, so
  what is proved of it holds for whatever they decide. The definitions here follow
  the words of the specification and give the concrete instance of the examples.
\<close>

text \<open>
  Modelled from the spec: the capability that an attribute flag asks of the
  hardware, for \<^verbatim>\<open>PinAttributes::validateWith\<close>, which is missing. The flags
  \<^verbatim>\<open>ActiveLow\<close> and \<^verbatim>\<open>InitialOn\<close> are the name of no capability.
\<close>

fun capability_of :: "attribute \<Rightarrow> capability option" where
  "capability_of A_Input = Some C_Input"
| "capability_of A_Output = Some C_Output"
| "capability_of A_PullUp = Some C_PullUp"
| "capability_of A_PullDown = Some C_PullDown"
| "capability_of A_ISR = Some C_ISR"
| "capability_of A_ActiveLow = None"
| "capability_of A_InitialOn = None"

text \<open>
  Modelled from the spec: \<^verbatim>\<open>PinAttributes::validateWith\<close>, which is missing. A
  request is valid when every flag in it is present in the capabilities. A flag that
  names no capability asks nothing: the specification lets \<open>setAttr\<close> act on
  \<^verbatim>\<open>InitialOn\<close> in a request, so a request that has it can be valid.
\<close>

definition validateWith :: "PinAttributes \<Rightarrow> PinCapabilities \<Rightarrow> bool" where
  "validateWith requested caps =
     (\<forall>f \<in> requested. case capability_of f of Some c \<Rightarrow> c \<in> caps | None \<Rightarrow> True)"

text \<open>
  Modelled from the spec: \<^verbatim>\<open>PinAttributes::conflictsWith\<close>, which is missing. A
  request conflicts with the accumulated attributes when the two together hold both
  flags of one of the exclusive pairs Input/Output and PullUp/PullDown.
\<close>

definition conflictsWith :: "PinAttributes \<Rightarrow> PinAttributes \<Rightarrow> bool" where
  "conflictsWith accumulated requested =
     (let both = accumulated \<union> requested
      in (A_Input \<in> both \<and> A_Output \<in> both) \<or> (A_PullUp \<in> both \<and> A_PullDown \<in> both))"

subsection \<open>Errors\<close>

text \<open>
  Modelled from the spec: \<^verbatim>\<open>Assert.h\<close> is not among the sources. A failed
  \<^verbatim>\<open>Assert(cond, msg, ...)\<close> throws and carries the formatted message; the spec names
  the failure of construction \<^verbatim>\<open>ConfigurationError\<close> and the failure of an
  operation on a pin \<^verbatim>\<open>AttributeError\<close>.
\<close>

datatype error = ConfigurationError string | AttributeError string

text \<open>\<^verbatim>\<open>%d\<close> of a value that is never negative here (\<^verbatim>\<open>int(index)\<close>).\<close>

definition digit :: "nat \<Rightarrow> char" where
  "digit d = ''0123456789'' ! d"

function decimal :: "nat \<Rightarrow> string" where
  "decimal n = (if n < 10 then [digit n] else decimal (n div 10) @ [digit (n mod 10)])"
  by pat_completeness auto
termination
  by (relation "measure id") auto

declare decimal.simps [simp del]

subsection \<open>The capability table\<close>

definition GetDefaultCapabilities :: "uint8_t \<Rightarrow> PinCapabilities" where
  "GetDefaultCapabilities index =
     (if index = 0 then
        {C_Native, C_Input, C_Output, C_PullUp, C_PullDown, C_ADC, C_PWM, C_ISR, C_UART}
      else if index = 1 then
        {C_Native, C_Output, C_Input, C_UART}
      else if index = 3 then
        {C_Native, C_Output, C_Input, C_ISR, C_UART}
      else if index \<in> {5, 16, 17, 18, 19, 21, 22, 23, 29} then
        {C_Native, C_Input, C_Output, C_PullUp, C_PullDown, C_PWM, C_ISR, C_UART}
      else if index \<in> {2, 4, 12, 13, 14, 15, 27, 32, 33} then
        {C_Native, C_Input, C_Output, C_PullUp, C_PullDown, C_ADC, C_PWM, C_ISR, C_UART}
      else if index \<in> {25, 26} then
        {C_Native, C_Input, C_Output, C_PullUp, C_PullDown, C_ADC, C_DAC, C_PWM, C_ISR,
         C_UART}
      else if index \<in> {6, 7, 8, 9, 10, 11} then
        {C_Native, C_Input, C_Output, C_PWM, C_ISR, C_UART}
      else if index \<in> {34, 35, 36, 39} then
        {C_Native, C_Input, C_ADC, C_ISR, C_UART}
      else PinCapabilities_None)"

text \<open>The case labels of the switch, in the order of the source.\<close>

definition mapped_indices :: "uint8_t list" where
  "mapped_indices =
     [0, 1, 3, 5, 16, 17, 18, 19, 21, 22, 23, 29, 2, 4, 12, 13, 14, 15, 27, 32, 33,
      25, 26, 6, 7, 8, 9, 10, 11, 34, 35, 36, 39]"

subsection \<open>The hardware\<close>

text \<open>
  The primitives \<^verbatim>\<open>__pinMode\<close>, \<^verbatim>\<open>__digitalRead\<close>, \<^verbatim>\<open>__digitalWrite\<close>,
  \<^verbatim>\<open>attachInterruptArg\<close> and \<^verbatim>\<open>detachInterrupt\<close> belong to the Arduino core. Their
  model is the least one the pin code can observe: every mutating call is appended
  to a log with the arguments it received, a pin keeps the level last written to it
  (any value but 0 is a high level), and reading a pin gives 1 or 0 for its level.
  Function and data pointers are addresses.
\<close>

datatype hw_call =
  DigitalWrite uint8_t uint8_t
  | PinMode uint8_t uint8_t
  | AttachInterruptArg uint8_t nat nat c_int
  | DetachInterrupt uint8_t

record hardware =
  level :: "uint8_t \<Rightarrow> bool"
  calls :: "hw_call list"

definition digitalWrite :: "uint8_t \<Rightarrow> uint8_t \<Rightarrow> hardware \<Rightarrow> hardware" where
  "digitalWrite pin val hw =
     hw\<lparr>level := (level hw)(pin := (val \<noteq> 0)), calls := calls hw @ [DigitalWrite pin val]\<rparr>"

definition digitalRead :: "uint8_t \<Rightarrow> hardware \<Rightarrow> c_int" where
  "digitalRead pin hw = (if level hw pin then 1 else 0)"

definition pinMode :: "uint8_t \<Rightarrow> uint8_t \<Rightarrow> hardware \<Rightarrow> hardware" where
  "pinMode pin mode hw = hw\<lparr>calls := calls hw @ [PinMode pin mode]\<rparr>"

definition attachInterruptArg ::
  "uint8_t \<Rightarrow> nat \<Rightarrow> nat \<Rightarrow> c_int \<Rightarrow> hardware \<Rightarrow> hardware" where
  "attachInterruptArg pin callback arg mode hw =
     hw\<lparr>calls := calls hw @ [AttachInterruptArg pin callback arg mode]\<rparr>"

definition detachInterrupt_hw :: "uint8_t \<Rightarrow> hardware \<Rightarrow> hardware" where
  "detachInterrupt_hw pin hw = hw\<lparr>calls := calls hw @ [DetachInterrupt pin]\<rparr>"

subsection \<open>The pin object\<close>

text \<open>
  The fields \<^verbatim>\<open>_index\<close>, \<^verbatim>\<open>_capabilities\<close>, \<^verbatim>\<open>_attributes\<close>, \<^verbatim>\<open>_currentMode\<close> and
  \<^verbatim>\<open>_readWriteMask\<close>; a name cannot begin with an underscore here. The mask only
  ever holds \<^verbatim>\<open>HIGH\<close> or \<^verbatim>\<open>LOW\<close> and is combined with \<^verbatim>\<open>int\<close> values by \<^verbatim>\<open>^\<close>, so
  it is kept at the width of an \<^verbatim>\<open>int\<close>.
\<close>

record GPIOPinDetail =
  pin_index :: uint8_t
  pin_capabilities :: PinCapabilities
  pin_attributes :: PinAttributes
  pin_currentMode :: PinAttributes
  pin_readWriteMask :: c_int

text \<open>
  Modelled from the spec: \<^verbatim>\<open>PinOptionsParser\<close>, which is missing. It enumerates
  the tokens of the configuration string in order; \<^verbatim>\<open>opt.is(s)\<close> is an exact match
  and \<^verbatim>\<open>opt()\<close> is the text of the token. The parser is the list of its tokens.
\<close>

type_synonym PinOptionsParser = "string list"

text \<open>
  The loop over the options in the constructor. The first token that is none of
  the four throws; nothing after it is looked at.
\<close>

fun fold_options ::
  "uint8_t \<Rightarrow> PinOptionsParser \<Rightarrow> PinAttributes \<Rightarrow> error + PinAttributes" where
  "fold_options index [] attrs = Inr attrs"
| "fold_options index (opt # options) attrs =
     (if opt = ''pu'' then fold_options index options (attrs \<union> {A_PullUp})
      else if opt = ''pd'' then fold_options index options (attrs \<union> {A_PullDown})
      else if opt = ''low'' then fold_options index options (attrs \<union> {A_ActiveLow})
      else if opt = ''high'' then fold_options index options attrs
      else Inl (ConfigurationError
             (''Bad GPIO option passed to pin '' @ decimal (unat index) @ '': '' @ opt)))"

text \<open>
  The constructor. It calls no primitive; the hardware is passed through so that
  this can be stated.
\<close>

definition GPIOPinDetail ::
  "uint8_t \<Rightarrow> PinOptionsParser \<Rightarrow> hardware \<Rightarrow> (error + GPIOPinDetail) \<times> hardware" where
  "GPIOPinDetail index options hw =
     (let caps = GetDefaultCapabilities index
      in if \<not> caps \<noteq> PinCapabilities_None
         then (Inl (ConfigurationError ''Bad GPIO number''), hw)
         else case fold_options index options PinAttributes_None of
                Inl e \<Rightarrow> (Inl e, hw)
              | Inr attrs \<Rightarrow>
                  (Inr \<lparr>pin_index = index, pin_capabilities = caps, pin_attributes = attrs,
                        pin_currentMode = PinAttributes_None,
                        pin_readWriteMask = (if has attrs A_ActiveLow then HIGH else LOW)\<rparr>,
                   hw))"

definition capabilities :: "GPIOPinDetail \<Rightarrow> PinCapabilities" where
  "capabilities p = pin_capabilities p"

definition attributes :: "GPIOPinDetail \<Rightarrow> PinAttributes" where
  "attributes p = pin_attributes p"

text \<open>
  \<^verbatim>\<open>write\<close> is \<open>write_pin\<close>: the bare name is a command of the proof language.

  An operation returns its outcome, the object and the hardware as the call leaves
  them. Every \<^verbatim>\<open>Assert\<close> of the source comes before the first assignment and the
  first primitive of its function.
\<close>

type_synonym 'a outcome = "(error + 'a) \<times> GPIOPinDetail \<times> hardware"

definition write_pin :: "GPIOPinDetail \<Rightarrow> c_int \<Rightarrow> hardware \<Rightarrow> unit outcome" where
  "write_pin p high hw =
     (if \<not> has (pin_currentMode p) A_Output
      then (Inl (AttributeError ''Pin has no output attribute defined. Cannot write to it.''),
            p, hw)
      else let val = pin_readWriteMask p XOR high
           in (Inr (), p, digitalWrite (pin_index p) (ucast val) hw))"

definition read :: "GPIOPinDetail \<Rightarrow> hardware \<Rightarrow> c_int" where
  "read p hw = (let raw = digitalRead (pin_index p) hw in raw XOR pin_readWriteMask p)"

definition setAttr ::
  "(PinAttributes \<Rightarrow> PinCapabilities \<Rightarrow> bool) \<Rightarrow> (PinAttributes \<Rightarrow> PinAttributes \<Rightarrow> bool) \<Rightarrow>
   GPIOPinDetail \<Rightarrow> PinAttributes \<Rightarrow> hardware \<Rightarrow> unit outcome" where
  "setAttr validate conflicts p val hw =
     (if \<not> (validate val (pin_capabilities p) \<or> pin_index p = 1 \<or> pin_index p = 3)
      then (Inl (AttributeError ''The requested attributes don't match the pin capabilities''),
            p, hw)
      else if \<not> (\<not> conflicts (pin_attributes p) val \<or> pin_index p = 1 \<or> pin_index p = 3)
      then (Inl (AttributeError
                   ''Attributes on this pin have been set before, and there's a conflict.''),
            p, hw)
      else
        let p' = p\<lparr>pin_currentMode := val\<rparr>;
            pinModeValue = (0 :: uint8_t);
            pinModeValue =
              (if has val A_Input then pinModeValue OR INPUT
               else if has val A_Output then pinModeValue OR OUTPUT
               else pinModeValue);
            pinModeValue =
              (if has (pin_attributes p') A_PullUp \<or> has val A_PullUp
               then pinModeValue OR PULLUP
               else if has (pin_attributes p') A_PullDown \<or> has val A_PullDown
               then pinModeValue OR PULLDOWN
               else pinModeValue);
            hw =
              (if has val A_Output
               then if has val A_InitialOn
                    then digitalWrite (pin_index p') (ucast (HIGH XOR pin_readWriteMask p')) hw
                    else digitalWrite (pin_index p') (ucast (LOW XOR pin_readWriteMask p')) hw
               else hw)
        in (Inr (), p', pinMode (pin_index p') pinModeValue hw))"

definition attachInterrupt ::
  "GPIOPinDetail \<Rightarrow> nat \<Rightarrow> nat \<Rightarrow> c_int \<Rightarrow> hardware \<Rightarrow> unit outcome" where
  "attachInterrupt p callback arg mode hw =
     (if \<not> has (pin_currentMode p) A_ISR
      then (Inl (AttributeError
                   (''Pin has no ISR attribute, which means 'setAttr' was not set, '' @
                    ''or the pin doesn't support ISR's. Cannot bind ISR.'')),
            p, hw)
      else (Inr (), p, attachInterruptArg (pin_index p) callback arg mode hw))"

definition detachInterrupt :: "GPIOPinDetail \<Rightarrow> hardware \<Rightarrow> unit outcome" where
  "detachInterrupt p hw =
     (if \<not> has (pin_currentMode p) A_ISR
      then (Inl (AttributeError
                   (''Pin has no ISR attribute, which means 'setAttr' was not set, '' @
                    ''or the pin doesn't support ISR's. Cannot unbind ISR.'')),
            p, hw)
      else (Inr (), p, detachInterrupt_hw (pin_index p) hw))"

definition toString :: "GPIOPinDetail \<Rightarrow> string" where
  "toString p = ''GPIO.'' @ decimal (unat (pin_index p))"

subsection \<open>Sequences of calls\<close>

text \<open>
  What a client can do with a pin after constructing it: any sequence of calls of
  the five operations. A call that throws leaves the state as the operation
  returned it, and the client goes on. \<open>run\<close> is the state after such a sequence.
\<close>

datatype call =
  SetAttr PinAttributes
  | Write c_int
  | Read
  | AttachInterrupt nat nat c_int
  | DetachInterrupt_call

fun perform ::
  "(PinAttributes \<Rightarrow> PinCapabilities \<Rightarrow> bool) \<Rightarrow> (PinAttributes \<Rightarrow> PinAttributes \<Rightarrow> bool) \<Rightarrow>
   call \<Rightarrow> GPIOPinDetail \<times> hardware \<Rightarrow> GPIOPinDetail \<times> hardware" where
  "perform validate conflicts (SetAttr val) (p, hw) = snd (setAttr validate conflicts p val hw)"
| "perform validate conflicts (Write high) (p, hw) = snd (write_pin p high hw)"
| "perform validate conflicts Read (p, hw) = (p, hw)"
| "perform validate conflicts (AttachInterrupt callback arg mode) (p, hw) =
     snd (attachInterrupt p callback arg mode hw)"
| "perform validate conflicts DetachInterrupt_call (p, hw) = snd (detachInterrupt p hw)"

fun run ::
  "(PinAttributes \<Rightarrow> PinCapabilities \<Rightarrow> bool) \<Rightarrow> (PinAttributes \<Rightarrow> PinAttributes \<Rightarrow> bool) \<Rightarrow>
   call list \<Rightarrow> GPIOPinDetail \<times> hardware \<Rightarrow> GPIOPinDetail \<times> hardware" where
  "run validate conflicts [] s = s"
| "run validate conflicts (c # cs) s = run validate conflicts cs (perform validate conflicts c s)"

text \<open>A hardware state to start from: every line low, nothing called yet.\<close>

definition hw_reset :: hardware where
  "hw_reset = \<lparr>level = (\<lambda>_. False), calls = []\<rparr>"

subsection \<open>The option tokens as the specification reads them\<close>

text \<open>
  The four tokens the specification lists, and the attribute each one stands for;
  \<^verbatim>\<open>high\<close> stands for none. The constructor is compared with these two below.
\<close>

definition known_option :: "string \<Rightarrow> bool" where
  "known_option t = (t = ''pu'' \<or> t = ''pd'' \<or> t = ''low'' \<or> t = ''high'')"

definition option_flags :: "string \<Rightarrow> PinAttributes" where
  "option_flags t =
     (if t = ''pu'' then {A_PullUp}
      else if t = ''pd'' then {A_PullDown}
      else if t = ''low'' then {A_ActiveLow}
      else {})"

subsection \<open>What a successful setAttr sends to the hardware\<close>

text \<open>
  The mode byte that \<open>setAttr\<close> computes for \<^verbatim>\<open>__pinMode\<close> and the level it
  writes first when the request has \<^verbatim>\<open>Output\<close>, named so that the effect of the
  function can be stated; \<open>setAttr_eq\<close> below shows that they are the values of
  the function itself.
\<close>

definition pinModeValue_of :: "GPIOPinDetail \<Rightarrow> PinAttributes \<Rightarrow> uint8_t" where
  "pinModeValue_of p val =
     (let pinModeValue = (0 :: uint8_t);
          pinModeValue =
            (if has val A_Input then pinModeValue OR INPUT
             else if has val A_Output then pinModeValue OR OUTPUT
             else pinModeValue)
      in if has (pin_attributes p) A_PullUp \<or> has val A_PullUp
         then pinModeValue OR PULLUP
         else if has (pin_attributes p) A_PullDown \<or> has val A_PullDown
         then pinModeValue OR PULLDOWN
         else pinModeValue)"

definition initial_level :: "GPIOPinDetail \<Rightarrow> PinAttributes \<Rightarrow> uint8_t" where
  "initial_level p val =
     ucast ((if has val A_InitialOn then HIGH else LOW) XOR pin_readWriteMask p)"

subsection \<open>The state of a constructed pin\<close>

text \<open>
  The object that the constructor builds at \<open>index\<close> when the options amount to
  \<open>attrs\<close>, with \<open>mode\<close> for its \<^verbatim>\<open>_currentMode\<close>: a short name for the concrete
  pins of the examples.
\<close>

definition pin_state :: "uint8_t \<Rightarrow> PinAttributes \<Rightarrow> PinAttributes \<Rightarrow> GPIOPinDetail" where
  "pin_state index attrs mode =
     \<lparr>pin_index = index, pin_capabilities = GetDefaultCapabilities index,
      pin_attributes = attrs, pin_currentMode = mode,
      pin_readWriteMask = (if has attrs A_ActiveLow then HIGH else LOW)\<rparr>"

section \<open>Properties\<close>

subsection \<open>The capability table and the unmapped indices\<close>

lemma caps_unmapped:
  "index \<notin> set mapped_indices \<Longrightarrow> GetDefaultCapabilities index = PinCapabilities_None"
  by (simp add: mapped_indices_def GetDefaultCapabilities_def)

lemma caps_mapped:
  "index \<in> set mapped_indices \<Longrightarrow> GetDefaultCapabilities index \<noteq> PinCapabilities_None"
  by (auto simp add: mapped_indices_def GetDefaultCapabilities_def PinCapabilities_None_def)

text \<open>
  C3. At every index that is no case label of the switch (40 is one) the capability
  table gives \<^verbatim>\<open>None\<close>, and the constructor fails with the configuration error
  "Bad GPIO number" and hands the hardware back as it received it. At the case
  labels the table never gives \<^verbatim>\<open>None\<close>, so these indices are exactly the unmapped
  ones.
\<close>

theorem unmapped_index_rejected:
  "(index \<notin> set mapped_indices \<longrightarrow>
      GetDefaultCapabilities index = PinCapabilities_None \<and>
      GPIOPinDetail index options hw = (Inl (ConfigurationError ''Bad GPIO number''), hw)) \<and>
   (index \<in> set mapped_indices \<longrightarrow> GetDefaultCapabilities index \<noteq> PinCapabilities_None)"
  by (simp add: caps_unmapped caps_mapped GPIOPinDetail_def)

theorem unmapped_index_rejected_witness:
  "(40 :: uint8_t) \<notin> set mapped_indices \<and>
   GetDefaultCapabilities 40 = PinCapabilities_None \<and>
   GPIOPinDetail 40 [''pu''] hw_reset =
     (Inl (ConfigurationError ''Bad GPIO number''), hw_reset) \<and>
   (26 :: uint8_t) \<in> set mapped_indices \<and>
   GetDefaultCapabilities 26 \<noteq> PinCapabilities_None"
proof -
  have a: "(40 :: uint8_t) \<notin> set mapped_indices"
    by (simp add: mapped_indices_def)
  have b: "(26 :: uint8_t) \<in> set mapped_indices"
    by (simp add: mapped_indices_def)
  from a b unmapped_index_rejected [of 40 "[''pu'']" hw_reset]
    unmapped_index_rejected [of 26 "[]" hw_reset]
  show ?thesis by simp
qed

subsection \<open>The constructor\<close>

lemma fold_options_eq:
  "fold_options index options attrs =
     (case List.find (\<lambda>t. \<not> known_option t) options of
        Some bad \<Rightarrow>
          Inl (ConfigurationError
                 (''Bad GPIO option passed to pin '' @ decimal (unat index) @ '': '' @ bad))
      | None \<Rightarrow> Inr (attrs \<union> (\<Union>t \<in> set options. option_flags t)))"
proof (induction options arbitrary: attrs)
  case Nil
  then show ?case by simp
next
  case (Cons opt options)
  show ?case
  proof (cases "known_option opt")
    case False
    then show ?thesis
      by (simp add: known_option_def)
  next
    case True
    then show ?thesis
      by (auto simp add: Cons.IH known_option_def option_flags_def split: option.split)
  qed
qed

lemma has_option_flags_low:
  "has (\<Union>t \<in> set options. option_flags t) A_ActiveLow = (''low'' \<in> set options)"
  by (auto simp add: has_def option_flags_def split: if_splits)

lemma constructor_eq:
  assumes "GetDefaultCapabilities index \<noteq> PinCapabilities_None"
  shows "GPIOPinDetail index options hw =
     (case List.find (\<lambda>t. \<not> known_option t) options of
        Some bad \<Rightarrow>
          (Inl (ConfigurationError
                  (''Bad GPIO option passed to pin '' @ decimal (unat index) @ '': '' @ bad)),
           hw)
      | None \<Rightarrow>
          (Inr \<lparr>pin_index = index,
                pin_capabilities = GetDefaultCapabilities index,
                pin_attributes = (\<Union>t \<in> set options. option_flags t),
                pin_currentMode = PinAttributes_None,
                pin_readWriteMask = (if ''low'' \<in> set options then HIGH else LOW)\<rparr>,
           hw))"
  using assms
  by (simp add: GPIOPinDetail_def fold_options_eq PinAttributes_None_def has_option_flags_low
      split: option.split)

text \<open>
  C4. At a mapped index the constructor does with the option tokens what the
  specification says: when every token is one of \<^verbatim>\<open>pu\<close>, \<^verbatim>\<open>pd\<close>, \<^verbatim>\<open>low\<close>,
  \<^verbatim>\<open>high\<close>, the pin is built with the union of their attributes (\<^verbatim>\<open>high\<close> adds
  none); otherwise no pin is built and the result is the configuration error whose
  message holds the index in decimal and the first token that is none of the four.
  In both cases the hardware comes back as it went in.
\<close>

theorem constructor_folds_options:
  assumes "GetDefaultCapabilities index \<noteq> PinCapabilities_None"
  shows "GPIOPinDetail index options hw =
     (case List.find (\<lambda>t. \<not> known_option t) options of
        Some bad \<Rightarrow>
          (Inl (ConfigurationError
                  (''Bad GPIO option passed to pin '' @ decimal (unat index) @ '': '' @ bad)),
           hw)
      | None \<Rightarrow>
          (Inr \<lparr>pin_index = index,
                pin_capabilities = GetDefaultCapabilities index,
                pin_attributes = (\<Union>t \<in> set options. option_flags t),
                pin_currentMode = PinAttributes_None,
                pin_readWriteMask = (if ''low'' \<in> set options then HIGH else LOW)\<rparr>,
           hw))"
  using assms by (rule constructor_eq)

theorem constructor_folds_options_witness:
  "GetDefaultCapabilities 26 \<noteq> PinCapabilities_None \<and>
   GPIOPinDetail 26 [''pu'', ''high'', ''low''] hw_reset =
     (Inr \<lparr>pin_index = 26, pin_capabilities = GetDefaultCapabilities 26,
           pin_attributes = {A_PullUp, A_ActiveLow}, pin_currentMode = PinAttributes_None,
           pin_readWriteMask = HIGH\<rparr>, hw_reset) \<and>
   GPIOPinDetail 26 [''pd'', ''PU'', ''bogus''] hw_reset =
     (Inl (ConfigurationError ''Bad GPIO option passed to pin 26: PU''), hw_reset)"
proof -
  have caps: "GetDefaultCapabilities 26 \<noteq> PinCapabilities_None"
    by (simp add: GetDefaultCapabilities_def PinCapabilities_None_def)
  have d: "decimal (unat (26 :: uint8_t)) = ''26''"
    by (simp add: decimal.simps digit_def)
  show ?thesis
    using caps d
      constructor_folds_options [OF caps, of "[''pu'', ''high'', ''low'']" hw_reset]
      constructor_folds_options [OF caps, of "[''pd'', ''PU'', ''bogus'']" hw_reset]
    by (simp add: known_option_def option_flags_def insert_commute)
qed

subsection \<open>What stays fixed over the life of a pin\<close>

lemma constructed_fields:
  assumes "GPIOPinDetail index options hw0 = (Inr p0, h0)"
  shows "h0 = hw0"
    and "pin_index p0 = index"
    and "pin_capabilities p0 = GetDefaultCapabilities index"
    and "pin_currentMode p0 = PinAttributes_None"
    and "pin_attributes p0 = (\<Union>t \<in> set options. option_flags t)"
    and "pin_readWriteMask p0 = (if ''low'' \<in> set options then HIGH else LOW)"
proof -
  from assms have caps: "GetDefaultCapabilities index \<noteq> PinCapabilities_None"
    by (auto simp add: GPIOPinDetail_def)
  from assms constructor_eq [OF caps, of options hw0]
  have "p0 = \<lparr>pin_index = index,
                pin_capabilities = GetDefaultCapabilities index,
                pin_attributes = (\<Union>t \<in> set options. option_flags t),
                pin_currentMode = PinAttributes_None,
                pin_readWriteMask = (if ''low'' \<in> set options then HIGH else LOW)\<rparr> \<and> h0 = hw0"
    by (auto split: option.splits)
  then show "h0 = hw0"
    and "pin_index p0 = index"
    and "pin_capabilities p0 = GetDefaultCapabilities index"
    and "pin_currentMode p0 = PinAttributes_None"
    and "pin_attributes p0 = (\<Union>t \<in> set options. option_flags t)"
    and "pin_readWriteMask p0 = (if ''low'' \<in> set options then HIGH else LOW)"
    by simp_all
qed

lemma setAttr_eq:
  "setAttr validate conflicts p val hw =
     (if \<not> (validate val (pin_capabilities p) \<or> pin_index p = 1 \<or> pin_index p = 3)
      then (Inl (AttributeError ''The requested attributes don't match the pin capabilities''),
            p, hw)
      else if \<not> (\<not> conflicts (pin_attributes p) val \<or> pin_index p = 1 \<or> pin_index p = 3)
      then (Inl (AttributeError
                   ''Attributes on this pin have been set before, and there's a conflict.''),
            p, hw)
      else (Inr (), p\<lparr>pin_currentMode := val\<rparr>,
            pinMode (pin_index p) (pinModeValue_of p val)
              (if has val A_Output then digitalWrite (pin_index p) (initial_level p val) hw
               else hw)))"
proof -
  have lvl: "(if has val A_InitialOn
         then digitalWrite (pin_index p) (ucast (HIGH XOR pin_readWriteMask p)) hw
         else digitalWrite (pin_index p) (ucast (LOW XOR pin_readWriteMask p)) hw) =
        digitalWrite (pin_index p) (initial_level p val) hw"
    by (simp add: initial_level_def)
  show ?thesis
    unfolding setAttr_def pinModeValue_of_def Let_def
    by (simp add: lvl split del: if_split cong: if_cong)
qed


lemma setAttr_outcome:
  "fst (setAttr validate conflicts p val hw) =
     (if \<not> (validate val (pin_capabilities p) \<or> pin_index p = 1 \<or> pin_index p = 3)
      then Inl (AttributeError ''The requested attributes don't match the pin capabilities'')
      else if \<not> (\<not> conflicts (pin_attributes p) val \<or> pin_index p = 1 \<or> pin_index p = 3)
      then Inl (AttributeError
                  ''Attributes on this pin have been set before, and there's a conflict.'')
      else Inr ())"
  by (simp add: setAttr_eq)

lemma setAttr_failure:
  assumes "fst (setAttr validate conflicts p val hw) \<noteq> Inr ()"
  shows "snd (setAttr validate conflicts p val hw) = (p, hw)"
proof -
  from assms have
    "\<not> (validate val (pin_capabilities p) \<or> pin_index p = 1 \<or> pin_index p = 3) \<or>
     \<not> (\<not> conflicts (pin_attributes p) val \<or> pin_index p = 1 \<or> pin_index p = 3)"
    unfolding setAttr_outcome by (simp split: if_splits)
  then show ?thesis
    unfolding setAttr_eq by auto
qed

lemma setAttr_success:
  assumes "fst (setAttr validate conflicts p val hw) = Inr ()"
  shows "snd (setAttr validate conflicts p val hw) =
     (p\<lparr>pin_currentMode := val\<rparr>,
      pinMode (pin_index p) (pinModeValue_of p val)
        (if has val A_Output then digitalWrite (pin_index p) (initial_level p val) hw
         else hw))"
proof -
  from assms have
    "validate val (pin_capabilities p) \<or> pin_index p = 1 \<or> pin_index p = 3"
    "\<not> conflicts (pin_attributes p) val \<or> pin_index p = 1 \<or> pin_index p = 3"
    unfolding setAttr_outcome by (simp_all split: if_splits)
  then show ?thesis
    unfolding setAttr_eq by simp
qed

lemma setAttr_pin:
  "fst (snd (setAttr validate conflicts p val hw)) =
     (if fst (setAttr validate conflicts p val hw) = Inr ()
      then p\<lparr>pin_currentMode := val\<rparr> else p)"
proof (cases "fst (setAttr validate conflicts p val hw) = Inr ()")
  case True
  from setAttr_success [OF True] True show ?thesis by simp
next
  case False
  from setAttr_failure [OF False] False show ?thesis by simp
qed

lemma perform_pin:
  "fst (perform validate conflicts c (p, hw)) = p \<or>
   (\<exists>val. c = SetAttr val \<and> fst (perform validate conflicts c (p, hw)) = p\<lparr>pin_currentMode := val\<rparr>)"
proof (cases c)
  case (SetAttr val)
  then show ?thesis
    by (simp add: setAttr_pin)
next
  case (Write high)
  then show ?thesis
    by (simp add: write_pin_def Let_def)
next
  case Read
  then show ?thesis by simp
next
  case (AttachInterrupt callback arg mode)
  then show ?thesis
    by (simp add: attachInterrupt_def)
next
  case DetachInterrupt_call
  then show ?thesis
    by (simp add: detachInterrupt_def)
qed

lemma run_pin:
  "fst (run validate conflicts cs (p, hw)) = p \<or>
   (\<exists>val. SetAttr val \<in> set cs \<and>
      fst (run validate conflicts cs (p, hw)) = p\<lparr>pin_currentMode := val\<rparr>)"
proof (induction cs arbitrary: p hw)
  case Nil
  then show ?case by simp
next
  case (Cons c cs)
  obtain p1 h1 where step: "perform validate conflicts c (p, hw) = (p1, h1)"
    by (cases "perform validate conflicts c (p, hw)")
  define q where "q = fst (run validate conflicts (c # cs) (p, hw))"
  have q: "q = fst (run validate conflicts cs (p1, h1))"
    by (simp add: q_def step)
  from perform_pin [of validate conflicts c p hw] step
  have p1: "p1 = p \<or> (\<exists>val. c = SetAttr val \<and> p1 = p\<lparr>pin_currentMode := val\<rparr>)"
    by simp
  from Cons.IH [of p1 h1] q
  have "q = p1 \<or> (\<exists>val. SetAttr val \<in> set cs \<and> q = p1\<lparr>pin_currentMode := val\<rparr>)"
    by simp
  then have "q = p \<or> (\<exists>val. SetAttr val \<in> set (c # cs) \<and> q = p\<lparr>pin_currentMode := val\<rparr>)"
  proof
    assume "q = p1"
    with p1 show ?thesis
      by (metis list.set_intros(1))
  next
    assume "\<exists>val. SetAttr val \<in> set cs \<and> q = p1\<lparr>pin_currentMode := val\<rparr>"
    then obtain val where val: "SetAttr val \<in> set cs" "q = p1\<lparr>pin_currentMode := val\<rparr>"
      by blast
    from p1 have "p1\<lparr>pin_currentMode := val\<rparr> = p\<lparr>pin_currentMode := val\<rparr>"
      by (elim disjE exE conjE) simp_all
    with val show ?thesis
      by (metis list.set_intros(2))
  qed
  then show ?case
    by (simp only: q_def)
qed

lemma run_fixed:
  assumes "run validate conflicts cs (p0, h0) = (p, hw)"
  shows "pin_index p = pin_index p0"
    and "pin_capabilities p = pin_capabilities p0"
    and "pin_attributes p = pin_attributes p0"
    and "pin_readWriteMask p = pin_readWriteMask p0"
proof -
  from run_pin [of validate conflicts cs p0 h0] assms
  have "p = p0 \<or> (\<exists>val. p = p0\<lparr>pin_currentMode := val\<rparr>)"
    by auto
  then show "pin_index p = pin_index p0"
    and "pin_capabilities p = pin_capabilities p0"
    and "pin_attributes p = pin_attributes p0"
    and "pin_readWriteMask p = pin_readWriteMask p0"
    by auto
qed

lemma reached_fields:
  assumes "GPIOPinDetail index options hw0 = (Inr p0, h0)"
    and "run validate conflicts cs (p0, h0) = (p, hw)"
  shows "pin_index p = index"
    and "pin_capabilities p = GetDefaultCapabilities index"
    and "pin_attributes p = (\<Union>t \<in> set options. option_flags t)"
    and "pin_readWriteMask p = (if ''low'' \<in> set options then HIGH else LOW)"
  using constructed_fields [OF assms(1)] run_fixed [OF assms(2)] by simp_all

text \<open>
  Where \<^verbatim>\<open>_currentMode\<close> comes from: it is the value the constructor gave it, or
  the request of a \<open>setAttr\<close> in the sequence that succeeded on the state it was
  called in.
\<close>

lemma run_append:
  "run validate conflicts (xs @ ys) s = run validate conflicts ys (run validate conflicts xs s)"
  by (induction xs arbitrary: s) simp_all

lemma perform_mode:
  "pin_currentMode (fst (perform validate conflicts c (p, hw))) = pin_currentMode p \<or>
   (\<exists>val. c = SetAttr val \<and> fst (setAttr validate conflicts p val hw) = Inr () \<and>
      pin_currentMode (fst (perform validate conflicts c (p, hw))) = val)"
proof (cases c)
  case (SetAttr val)
  show ?thesis
  proof (cases "fst (setAttr validate conflicts p val hw) = Inr ()")
    case True
    with SetAttr show ?thesis
      by (simp add: setAttr_pin)
  next
    case False
    with SetAttr show ?thesis
      by (simp add: setAttr_pin)
  qed
next
  case (Write high)
  then show ?thesis
    by (simp add: write_pin_def Let_def)
next
  case Read
  then show ?thesis by simp
next
  case (AttachInterrupt callback arg mode)
  then show ?thesis
    by (simp add: attachInterrupt_def)
next
  case DetachInterrupt_call
  then show ?thesis
    by (simp add: detachInterrupt_def)
qed

lemma run_mode:
  "pin_currentMode (fst (run validate conflicts cs s)) = pin_currentMode (fst s) \<or>
   (\<exists>pre val post. cs = pre @ SetAttr val # post \<and>
      fst (setAttr validate conflicts (fst (run validate conflicts pre s)) val
             (snd (run validate conflicts pre s))) = Inr () \<and>
      pin_currentMode (fst (run validate conflicts cs s)) = val)"
proof (induction cs rule: rev_induct)
  case Nil
  then show ?case by simp
next
  case (snoc c cs)
  obtain q h where mid: "run validate conflicts cs s = (q, h)"
    by (cases "run validate conflicts cs s")
  have last: "run validate conflicts (cs @ [c]) s = perform validate conflicts c (q, h)"
    by (simp add: run_append mid)
  from perform_mode [of validate conflicts c q h]
  show ?case
  proof
    assume same: "pin_currentMode (fst (perform validate conflicts c (q, h))) = pin_currentMode q"
    from snoc.IH show ?thesis
    proof
      assume "pin_currentMode (fst (run validate conflicts cs s)) = pin_currentMode (fst s)"
      with same mid last show ?thesis
        by simp
    next
      assume "\<exists>pre val post. cs = pre @ SetAttr val # post \<and>
        fst (setAttr validate conflicts (fst (run validate conflicts pre s)) val
               (snd (run validate conflicts pre s))) = Inr () \<and>
        pin_currentMode (fst (run validate conflicts cs s)) = val"
      then obtain pre val post where e: "cs = pre @ SetAttr val # post"
        "fst (setAttr validate conflicts (fst (run validate conflicts pre s)) val
               (snd (run validate conflicts pre s))) = Inr ()"
        "pin_currentMode (fst (run validate conflicts cs s)) = val"
        by blast
      from e(1) have "cs @ [c] = pre @ SetAttr val # (post @ [c])"
        by simp
      moreover from e(3) same mid last
      have "pin_currentMode (fst (run validate conflicts (cs @ [c]) s)) = val"
        by simp
      ultimately show ?thesis
        using e(2) by blast
    qed
  next
    assume "\<exists>val. c = SetAttr val \<and> fst (setAttr validate conflicts q val h) = Inr () \<and>
      pin_currentMode (fst (perform validate conflicts c (q, h))) = val"
    then obtain val where v: "c = SetAttr val"
      "fst (setAttr validate conflicts q val h) = Inr ()"
      "pin_currentMode (fst (perform validate conflicts c (q, h))) = val"
      by blast
    from v(1) have "cs @ [c] = cs @ SetAttr val # []"
      by simp
    moreover from v(2) mid
    have "fst (setAttr validate conflicts (fst (run validate conflicts cs s)) val
               (snd (run validate conflicts cs s))) = Inr ()"
      by simp
    moreover from v(3) last
    have "pin_currentMode (fst (run validate conflicts (cs @ [c]) s)) = val"
      by simp
    ultimately show ?thesis
      by blast
  qed
qed

subsection \<open>Concrete pins\<close>

lemma pin_state_simps [simp]:
  "pin_index (pin_state index attrs mode) = index"
  "pin_capabilities (pin_state index attrs mode) = GetDefaultCapabilities index"
  "pin_attributes (pin_state index attrs mode) = attrs"
  "pin_currentMode (pin_state index attrs mode) = mode"
  "pin_readWriteMask (pin_state index attrs mode) = (if has attrs A_ActiveLow then HIGH else LOW)"
  "(pin_state index attrs mode)\<lparr>pin_currentMode := mode'\<rparr> = pin_state index attrs mode'"
  by (simp_all add: pin_state_def)

lemma construct_no_options:
  "GetDefaultCapabilities index \<noteq> PinCapabilities_None \<Longrightarrow>
   GPIOPinDetail index [] hw = (Inr (pin_state index {} {}), hw)"
  by (simp add: GPIOPinDetail_def pin_state_def PinAttributes_None_def has_def)

lemma construct_low:
  "GetDefaultCapabilities index \<noteq> PinCapabilities_None \<Longrightarrow>
   GPIOPinDetail index [''low''] hw = (Inr (pin_state index {A_ActiveLow} {}), hw)"
  by (simp add: GPIOPinDetail_def pin_state_def PinAttributes_None_def has_def)

lemma caps_26: "GetDefaultCapabilities 26 =
  {C_Native, C_Input, C_Output, C_PullUp, C_PullDown, C_ADC, C_DAC, C_PWM, C_ISR, C_UART}"
  by (simp add: GetDefaultCapabilities_def)

lemma caps_34: "GetDefaultCapabilities 34 = {C_Native, C_Input, C_ADC, C_ISR, C_UART}"
  by (simp add: GetDefaultCapabilities_def)

lemma caps_1: "GetDefaultCapabilities 1 = {C_Native, C_Output, C_Input, C_UART}"
  by (simp add: GetDefaultCapabilities_def)

lemma construct_pu:
  "GetDefaultCapabilities index \<noteq> PinCapabilities_None \<Longrightarrow>
   GPIOPinDetail index [''pu''] hw = (Inr (pin_state index {A_PullUp} {}), hw)"
  by (simp add: GPIOPinDetail_def pin_state_def PinAttributes_None_def has_def)

lemma caps_3: "GetDefaultCapabilities 3 = {C_Native, C_Output, C_Input, C_ISR, C_UART}"
  by (simp add: GetDefaultCapabilities_def)

subsection \<open>The two checks of setAttr\<close>

text \<open>
  C1. Take a pin that was constructed at \<open>index\<close> and then used through any
  sequence of calls. When \<open>index\<close> is neither 1 nor 3 and the capability check
  \<^verbatim>\<open>validateWith\<close> refuses the request against the capabilities of \<open>index\<close>,
  \<open>setAttr\<close> fails with the attribute error of the first \<^verbatim>\<open>Assert\<close> and leaves the
  object, with its \<^verbatim>\<open>_currentMode\<close>, and the hardware as they were. At the
  indices 1 and 3 \<open>setAttr\<close> never fails, whatever is requested. The check is an
  argument of \<open>setAttr\<close> here, so this holds for whatever \<^verbatim>\<open>validateWith\<close> decides;
  the example takes the subset test of the specification.
\<close>

theorem setAttr_capability_violation:
  assumes "GPIOPinDetail index options hw0 = (Inr p0, h0)"
    and "run validate conflicts cs (p0, h0) = (p, hw)"
  shows "(index \<noteq> 1 \<and> index \<noteq> 3 \<and> \<not> validate val (GetDefaultCapabilities index) \<longrightarrow>
            setAttr validate conflicts p val hw =
              (Inl (AttributeError
                      ''The requested attributes don't match the pin capabilities''),
               p, hw)) \<and>
         (index = 1 \<or> index = 3 \<longrightarrow> fst (setAttr validate conflicts p val hw) = Inr ())"
  using reached_fields(1,2) [OF assms] by (auto simp add: setAttr_eq)

theorem setAttr_capability_violation_witness:
  "GPIOPinDetail 34 [] hw_reset = (Inr (pin_state 34 {} {}), hw_reset) \<and>
   run validateWith conflictsWith [SetAttr {A_Input}] (pin_state 34 {} {}, hw_reset) =
     (pin_state 34 {} {A_Input}, pinMode 34 INPUT hw_reset) \<and>
   \<not> validateWith {A_Output} (GetDefaultCapabilities 34) \<and>
   setAttr validateWith conflictsWith (pin_state 34 {} {A_Input}) {A_Output}
       (pinMode 34 INPUT hw_reset) =
     (Inl (AttributeError ''The requested attributes don't match the pin capabilities''),
      pin_state 34 {} {A_Input}, pinMode 34 INPUT hw_reset) \<and>
   GPIOPinDetail 1 [] hw_reset = (Inr (pin_state 1 {} {}), hw_reset) \<and>
   \<not> validateWith {A_PullUp} (GetDefaultCapabilities 1) \<and>
   fst (setAttr validateWith conflictsWith (pin_state 1 {} {}) {A_PullUp} hw_reset) = Inr ()"
proof -
  have c34: "GPIOPinDetail 34 [] hw_reset = (Inr (pin_state 34 {} {}), hw_reset)"
    by (simp add: construct_no_options caps_34 PinCapabilities_None_def)
  have r34: "run validateWith conflictsWith [SetAttr {A_Input}] (pin_state 34 {} {}, hw_reset) =
      (pin_state 34 {} {A_Input}, pinMode 34 INPUT hw_reset)"
    by (simp add: setAttr_eq validateWith_def conflictsWith_def caps_34 has_def
        pinModeValue_of_def)
  have v34: "\<not> validateWith {A_Output} (GetDefaultCapabilities 34)"
    by (simp add: validateWith_def caps_34)
  have c1: "GPIOPinDetail 1 [] hw_reset = (Inr (pin_state 1 {} {}), hw_reset)"
    by (simp add: construct_no_options caps_1 PinCapabilities_None_def)
  have r1: "run validateWith conflictsWith [] (pin_state 1 {} {}, hw_reset) =
      (pin_state 1 {} {}, hw_reset)"
    by simp
  have v1: "\<not> validateWith {A_PullUp} (GetDefaultCapabilities 1)"
    by (simp add: validateWith_def caps_1)
  from setAttr_capability_violation [OF c34 r34, of "{A_Output}"]
    setAttr_capability_violation [OF c1 r1, of "{A_PullUp}"]
    c34 r34 v34 c1 v1
  show ?thesis by simp
qed


text \<open>
  C7. For such a pin with \<open>index\<close> neither 1 nor 3, a request that
  \<^verbatim>\<open>conflictsWith\<close> finds in conflict with the accumulated attributes fails with an
  attribute error (of the first \<^verbatim>\<open>Assert\<close> when the capability check refuses it
  too, of the second otherwise) and changes nothing; at the indices 1 and 3
  \<open>setAttr\<close> never fails. With the conflict test of the specification, a request
  that together with the accumulated attributes holds Input and Output, or PullUp
  and PullDown, is rejected.
\<close>

theorem setAttr_conflict_check:
  assumes "GPIOPinDetail index options hw0 = (Inr p0, h0)"
    and "run validate conflicts cs (p0, h0) = (p, hw)"
  shows "(index \<noteq> 1 \<and> index \<noteq> 3 \<and> conflicts (pin_attributes p) val \<longrightarrow>
            setAttr validate conflicts p val hw =
              (Inl (AttributeError
                 (if validate val (GetDefaultCapabilities index)
                  then ''Attributes on this pin have been set before, and there's a conflict.''
                  else ''The requested attributes don't match the pin capabilities'')),
               p, hw)) \<and>
         (index = 1 \<or> index = 3 \<longrightarrow> fst (setAttr validate conflicts p val hw) = Inr ()) \<and>
         (index \<noteq> 1 \<and> index \<noteq> 3 \<and>
          ((A_Input \<in> pin_attributes p \<union> val \<and> A_Output \<in> pin_attributes p \<union> val) \<or>
           (A_PullUp \<in> pin_attributes p \<union> val \<and> A_PullDown \<in> pin_attributes p \<union> val)) \<longrightarrow>
            (\<exists>msg. setAttr validate conflictsWith p val hw = (Inl (AttributeError msg), p, hw)))"
proof -
  from run_fixed [OF assms(2)] constructed_fields(2,3) [OF assms(1)]
  have f: "pin_index p = index" "pin_capabilities p = GetDefaultCapabilities index"
    by simp_all
  have a: "index \<noteq> 1 \<and> index \<noteq> 3 \<and> conflicts (pin_attributes p) val \<longrightarrow>
            setAttr validate conflicts p val hw =
              (Inl (AttributeError
                 (if validate val (GetDefaultCapabilities index)
                  then ''Attributes on this pin have been set before, and there's a conflict.''
                  else ''The requested attributes don't match the pin capabilities'')),
               p, hw)"
    using f by (simp add: setAttr_eq)
  have b: "index = 1 \<or> index = 3 \<longrightarrow> fst (setAttr validate conflicts p val hw) = Inr ()"
    using f by (auto simp add: setAttr_eq)
  have c: "index \<noteq> 1 \<and> index \<noteq> 3 \<and>
          ((A_Input \<in> pin_attributes p \<union> val \<and> A_Output \<in> pin_attributes p \<union> val) \<or>
           (A_PullUp \<in> pin_attributes p \<union> val \<and> A_PullDown \<in> pin_attributes p \<union> val)) \<longrightarrow>
            (\<exists>msg. setAttr validate conflictsWith p val hw = (Inl (AttributeError msg), p, hw))"
    using f by (simp add: setAttr_eq conflictsWith_def Let_def)
  from a b c show ?thesis by blast
qed


theorem setAttr_conflict_check_witness:
  "GPIOPinDetail 26 [''pu''] hw_reset = (Inr (pin_state 26 {A_PullUp} {}), hw_reset) \<and>
   run validateWith conflictsWith [] (pin_state 26 {A_PullUp} {}, hw_reset) =
     (pin_state 26 {A_PullUp} {}, hw_reset) \<and>
   conflictsWith {A_PullUp} {A_Input, A_PullDown} \<and>
   validateWith {A_Input, A_PullDown} (GetDefaultCapabilities 26) \<and>
   setAttr validateWith conflictsWith (pin_state 26 {A_PullUp} {}) {A_Input, A_PullDown}
       hw_reset =
     (Inl (AttributeError
             ''Attributes on this pin have been set before, and there's a conflict.''),
      pin_state 26 {A_PullUp} {}, hw_reset) \<and>
   GPIOPinDetail 3 [] hw_reset = (Inr (pin_state 3 {} {}), hw_reset) \<and>
   conflictsWith {} {A_Input, A_Output} \<and>
   fst (setAttr validateWith conflictsWith (pin_state 3 {} {}) {A_Input, A_Output} hw_reset) =
     Inr ()"
proof -
  have c26: "GPIOPinDetail 26 [''pu''] hw_reset = (Inr (pin_state 26 {A_PullUp} {}), hw_reset)"
    by (simp add: construct_pu caps_26 PinCapabilities_None_def)
  have r26: "run validateWith conflictsWith [] (pin_state 26 {A_PullUp} {}, hw_reset) =
      (pin_state 26 {A_PullUp} {}, hw_reset)"
    by simp
  have k26: "conflictsWith {A_PullUp} {A_Input, A_PullDown}"
    by (simp add: conflictsWith_def)
  have v26: "validateWith {A_Input, A_PullDown} (GetDefaultCapabilities 26)"
    by (simp add: validateWith_def caps_26)
  have c3: "GPIOPinDetail 3 [] hw_reset = (Inr (pin_state 3 {} {}), hw_reset)"
    by (simp add: construct_no_options caps_3 PinCapabilities_None_def)
  have r3: "run validateWith conflictsWith [] (pin_state 3 {} {}, hw_reset) =
      (pin_state 3 {} {}, hw_reset)"
    by simp
  have k3: "conflictsWith {} {A_Input, A_Output}"
    by (simp add: conflictsWith_def)
  from setAttr_conflict_check [OF c26 r26, of "{A_Input, A_PullDown}"]
    setAttr_conflict_check [OF c3 r3, of "{A_Input, A_Output}"]
    c26 r26 k26 v26 c3 k3
  show ?thesis by simp
qed

text \<open>
  C10. For a pin constructed from \<open>options\<close>, the field \<^verbatim>\<open>_attributes\<close> is the
  union of the attributes of the option tokens and no sequence of calls of
  \<open>setAttr\<close>, \<open>write\<close>, \<open>read\<close>, \<open>attachInterrupt\<close> and \<open>detachInterrupt\<close> changes
  it, nor do two more calls of \<open>setAttr\<close>. Each of these two calls succeeds or
  fails exactly as it would on the pin fresh from its constructor, so when each
  request alone passes the capability check and does not conflict with the
  attributes of the options, both calls succeed one after the other and each
  leaves its request in \<^verbatim>\<open>_currentMode\<close>; whether the two requests conflict with
  each other plays no part.
\<close>

theorem attributes_fixed_at_construction:
  assumes "GPIOPinDetail index options hw0 = (Inr p0, h0)"
    and "run validate conflicts cs (p0, h0) = (p, hw)"
    and "setAttr validate conflicts p r1 hw = (res1, p1, hw1)"
    and "setAttr validate conflicts p1 r2 hw1 = (res2, p2, hw2)"
  shows "pin_attributes p = pin_attributes p0 \<and>
         pin_attributes p0 = (\<Union>t \<in> set options. option_flags t) \<and>
         pin_attributes p1 = pin_attributes p0 \<and>
         pin_attributes p2 = pin_attributes p0 \<and>
         res1 = fst (setAttr validate conflicts p0 r1 h0) \<and>
         res2 = fst (setAttr validate conflicts p0 r2 h0) \<and>
         (validate r1 (GetDefaultCapabilities index) \<and> \<not> conflicts (pin_attributes p0) r1 \<and>
          validate r2 (GetDefaultCapabilities index) \<and> \<not> conflicts (pin_attributes p0) r2 \<longrightarrow>
            res1 = Inr () \<and> pin_currentMode p1 = r1 \<and>
            res2 = Inr () \<and> pin_currentMode p2 = r2)"
proof -
  note c = constructed_fields [OF assms(1)]
  note r = run_fixed [OF assms(2)]
  from assms(3) have s1: "res1 = fst (setAttr validate conflicts p r1 hw)"
    "p1 = fst (snd (setAttr validate conflicts p r1 hw))"
    by simp_all
  from assms(4) have s2: "res2 = fst (setAttr validate conflicts p1 r2 hw1)"
    "p2 = fst (snd (setAttr validate conflicts p1 r2 hw1))"
    by simp_all
  have a1: "pin_index p1 = pin_index p" "pin_capabilities p1 = pin_capabilities p"
    "pin_attributes p1 = pin_attributes p"
    by (simp_all add: s1(2) setAttr_pin)
  have a2: "pin_attributes p2 = pin_attributes p1"
    by (simp add: s2(2) setAttr_pin)
  have o1: "res1 = fst (setAttr validate conflicts p0 r1 h0)"
    by (simp add: s1(1) setAttr_outcome r)
  have o2: "res2 = fst (setAttr validate conflicts p0 r2 h0)"
    by (simp add: s2(1) setAttr_outcome a1 r)
  have m1: "res1 = Inr () \<longrightarrow> pin_currentMode p1 = r1"
    by (simp add: s1 setAttr_pin)
  have m2: "res2 = Inr () \<longrightarrow> pin_currentMode p2 = r2"
    by (simp add: s2 setAttr_pin)
  have ok: "validate r1 (GetDefaultCapabilities index) \<and> \<not> conflicts (pin_attributes p0) r1 \<and>
          validate r2 (GetDefaultCapabilities index) \<and> \<not> conflicts (pin_attributes p0) r2 \<longrightarrow>
            res1 = Inr () \<and> res2 = Inr ()"
    by (simp add: o1 o2 setAttr_outcome c)
  from r(3) c(5) a1(3) a2 o1 o2 m1 m2 ok show ?thesis
    by simp
qed

theorem attributes_fixed_at_construction_witness:
  "GPIOPinDetail 26 [] hw_reset = (Inr (pin_state 26 {} {}), hw_reset) \<and>
   run validateWith conflictsWith [Write 1, Read] (pin_state 26 {} {}, hw_reset) =
     (pin_state 26 {} {}, hw_reset) \<and>
   conflictsWith {A_Input} {A_Output} \<and>
   validateWith {A_Input} (GetDefaultCapabilities 26) \<and> \<not> conflictsWith {} {A_Input} \<and>
   validateWith {A_Output} (GetDefaultCapabilities 26) \<and> \<not> conflictsWith {} {A_Output} \<and>
   setAttr validateWith conflictsWith (pin_state 26 {} {}) {A_Input} hw_reset =
     (Inr (), pin_state 26 {} {A_Input}, pinMode 26 INPUT hw_reset) \<and>
   fst (setAttr validateWith conflictsWith (pin_state 26 {} {A_Input}) {A_Output}
          (pinMode 26 INPUT hw_reset)) = Inr () \<and>
   pin_currentMode (fst (snd (setAttr validateWith conflictsWith (pin_state 26 {} {A_Input})
          {A_Output} (pinMode 26 INPUT hw_reset)))) = {A_Output} \<and>
   pin_attributes (fst (snd (setAttr validateWith conflictsWith (pin_state 26 {} {A_Input})
          {A_Output} (pinMode 26 INPUT hw_reset)))) = {}"
proof -
  have c26: "GPIOPinDetail 26 [] hw_reset = (Inr (pin_state 26 {} {}), hw_reset)"
    by (simp add: construct_no_options caps_26 PinCapabilities_None_def)
  have r26: "run validateWith conflictsWith [Write 1, Read] (pin_state 26 {} {}, hw_reset) =
      (pin_state 26 {} {}, hw_reset)"
    by (simp add: write_pin_def has_def)
  have k: "conflictsWith {A_Input} {A_Output}" "\<not> conflictsWith {} {A_Input}"
    "\<not> conflictsWith {} {A_Output}"
    by (simp_all add: conflictsWith_def)
  have v: "validateWith {A_Input} (GetDefaultCapabilities 26)"
    "validateWith {A_Output} (GetDefaultCapabilities 26)"
    by (simp_all add: validateWith_def caps_26)
  have s1: "setAttr validateWith conflictsWith (pin_state 26 {} {}) {A_Input} hw_reset =
     (Inr (), pin_state 26 {} {A_Input}, pinMode 26 INPUT hw_reset)"
    using k v by (simp add: setAttr_eq has_def pinModeValue_of_def)
  obtain res2 p2 hw2 where s2:
    "setAttr validateWith conflictsWith (pin_state 26 {} {A_Input}) {A_Output}
       (pinMode 26 INPUT hw_reset) = (res2, p2, hw2)"
    by (cases "setAttr validateWith conflictsWith (pin_state 26 {} {A_Input}) {A_Output}
       (pinMode 26 INPUT hw_reset)")
  note t = attributes_fixed_at_construction [OF c26 r26 s1 s2]
  have k': "\<not> conflictsWith (pin_attributes (pin_state 26 {} {})) {A_Input}"
    "\<not> conflictsWith (pin_attributes (pin_state 26 {} {})) {A_Output}"
    by (simp_all add: k)
  from t have "pin_attributes p2 = pin_attributes (pin_state 26 {} {})"
    by blast
  then have a2: "pin_attributes p2 = {}"
    by simp
  from t k' v have "res2 = Inr () \<and> pin_currentMode p2 = {A_Output}"
    by blast
  with a2 have "res2 = Inr () \<and> pin_currentMode p2 = {A_Output} \<and> pin_attributes p2 = {}"
    by simp
  with c26 r26 k v s1 s2 show ?thesis
    by simp
qed

subsection \<open>Levels and the polarity mask\<close>

lemma boolean_xor_level:
  assumes "v = LOW \<or> v = HIGH" and "m = LOW \<or> m = HIGH"
  shows "digitalRead pin (digitalWrite pin (ucast (v XOR m)) hw) = v XOR m"
  using assms by (auto simp add: LOW_def HIGH_def digitalRead_def digitalWrite_def)

lemma boolean_xor_cancel:
  assumes "v = LOW \<or> v = HIGH" and "m = LOW \<or> m = HIGH"
  shows "(m XOR v) XOR m = v"
  using assms by (auto simp add: LOW_def HIGH_def)

lemma hw_reset_calls: "calls hw_reset = []"
  by (simp add: hw_reset_def)

lemma set_output_26_low:
  "setAttr validateWith conflictsWith (pin_state 26 {A_ActiveLow} {}) {A_Output} hw =
     (Inr (), pin_state 26 {A_ActiveLow} {A_Output},
      pinMode 26 OUTPUT (digitalWrite 26 (ucast HIGH) hw))"
  by (simp add: setAttr_eq validateWith_def conflictsWith_def caps_26 has_def
      pinModeValue_of_def initial_level_def LOW_def)

lemma set_output_26:
  "setAttr validateWith conflictsWith (pin_state 26 {} {}) {A_Output} hw =
     (Inr (), pin_state 26 {} {A_Output}, pinMode 26 OUTPUT (digitalWrite 26 (ucast LOW) hw))"
  by (simp add: setAttr_eq validateWith_def conflictsWith_def caps_26 has_def
      pinModeValue_of_def initial_level_def LOW_def)

lemma set_output_on_26:
  "setAttr validateWith conflictsWith (pin_state 26 {} {}) {A_Output, A_InitialOn} hw =
     (Inr (), pin_state 26 {} {A_Output, A_InitialOn},
      pinMode 26 OUTPUT (digitalWrite 26 (ucast HIGH) hw))"
  by (simp add: setAttr_eq validateWith_def conflictsWith_def caps_26 has_def
      pinModeValue_of_def initial_level_def LOW_def)

lemma set_input_isr_26:
  "setAttr validateWith conflictsWith (pin_state 26 {} {}) {A_Input, A_ISR} hw =
     (Inr (), pin_state 26 {} {A_Input, A_ISR}, pinMode 26 INPUT hw)"
  by (simp add: setAttr_eq validateWith_def conflictsWith_def caps_26 has_def
      pinModeValue_of_def)

text \<open>
  C5. \<open>write\<close> fails with the attribute error of its \<^verbatim>\<open>Assert\<close>, and changes
  neither the object nor the hardware, unless \<^verbatim>\<open>_currentMode\<close> has \<^verbatim>\<open>Output\<close>.
  When it has, \<open>write\<close> succeeds, the object is unchanged and the hardware
  receives one \<^verbatim>\<open>__digitalWrite\<close> on the pin, of the value XOR \<^verbatim>\<open>_readWriteMask\<close>;
  when the value and the mask are each \<^verbatim>\<open>LOW\<close> or \<^verbatim>\<open>HIGH\<close>, the line then reads
  the value XOR the mask.
\<close>

theorem write_requires_output:
  "(\<not> has (pin_currentMode p) A_Output \<longrightarrow>
      write_pin p v hw =
        (Inl (AttributeError ''Pin has no output attribute defined. Cannot write to it.''),
         p, hw)) \<and>
   (has (pin_currentMode p) A_Output \<longrightarrow>
      write_pin p v hw =
        (Inr (), p, digitalWrite (pin_index p) (ucast (v XOR pin_readWriteMask p)) hw) \<and>
      calls (snd (snd (write_pin p v hw))) =
        calls hw @ [DigitalWrite (pin_index p) (ucast (v XOR pin_readWriteMask p))] \<and>
      ((v = LOW \<or> v = HIGH) \<and> (pin_readWriteMask p = LOW \<or> pin_readWriteMask p = HIGH) \<longrightarrow>
         digitalRead (pin_index p) (snd (snd (write_pin p v hw))) = v XOR pin_readWriteMask p))"
proof -
  have x: "pin_readWriteMask p XOR v = v XOR pin_readWriteMask p"
    by (simp add: xor.commute)
  show ?thesis
    by (simp add: write_pin_def Let_def x boolean_xor_level) (simp add: digitalWrite_def)
qed


theorem write_requires_output_witness:
  "\<not> has (pin_currentMode (pin_state 26 {A_ActiveLow} {})) A_Output \<and>
   write_pin (pin_state 26 {A_ActiveLow} {}) HIGH hw_reset =
     (Inl (AttributeError ''Pin has no output attribute defined. Cannot write to it.''),
      pin_state 26 {A_ActiveLow} {}, hw_reset) \<and>
   has (pin_currentMode (pin_state 26 {A_ActiveLow} {A_Output})) A_Output \<and>
   pin_readWriteMask (pin_state 26 {A_ActiveLow} {A_Output}) = HIGH \<and>
   calls (snd (snd (write_pin (pin_state 26 {A_ActiveLow} {A_Output}) HIGH hw_reset))) =
     [DigitalWrite 26 0] \<and>
   digitalRead 26 (snd (snd (write_pin (pin_state 26 {A_ActiveLow} {A_Output}) HIGH hw_reset))) =
     LOW"
  using write_requires_output [of "pin_state 26 {A_ActiveLow} {}" HIGH hw_reset]
    write_requires_output [of "pin_state 26 {A_ActiveLow} {A_Output}" HIGH hw_reset]
  by (simp add: has_def hw_reset_def HIGH_def LOW_def digitalWrite_def digitalRead_def)

text \<open>
  C2. Take a pin constructed from any options, so with the mask \<^verbatim>\<open>HIGH\<close> when
  \<^verbatim>\<open>low\<close> is among them and \<^verbatim>\<open>LOW\<close> otherwise, and used through any sequence of
  calls. When its \<^verbatim>\<open>_currentMode\<close> has \<^verbatim>\<open>Output\<close> and \<open>v\<close> is \<^verbatim>\<open>LOW\<close> or \<^verbatim>\<open>HIGH\<close>,
  \<open>write v\<close> succeeds and \<open>read\<close> on the hardware it leaves returns \<open>v\<close>.
\<close>

theorem read_after_write:
  assumes "GPIOPinDetail index options hw0 = (Inr p0, h0)"
    and "run validate conflicts cs (p0, h0) = (p, hw)"
    and "has (pin_currentMode p) A_Output"
    and "v = LOW \<or> v = HIGH"
  shows "pin_readWriteMask p = (if ''low'' \<in> set options then HIGH else LOW) \<and>
         write_pin p v hw =
           (Inr (), p, digitalWrite index (ucast (pin_readWriteMask p XOR v)) hw) \<and>
         read p (digitalWrite index (ucast (pin_readWriteMask p XOR v)) hw) = v"
proof -
  note f = reached_fields [OF assms(1,2)]
  from f(4) have m: "pin_readWriteMask p = LOW \<or> pin_readWriteMask p = HIGH"
    by simp
  have x: "pin_readWriteMask p XOR v = v XOR pin_readWriteMask p"
    by (simp add: xor.commute)
  have w: "write_pin p v hw =
      (Inr (), p, digitalWrite index (ucast (pin_readWriteMask p XOR v)) hw)"
    using assms(3) by (simp add: write_pin_def Let_def f(1))
  have "read p (digitalWrite index (ucast (pin_readWriteMask p XOR v)) hw) =
      (v XOR pin_readWriteMask p) XOR pin_readWriteMask p"
    by (simp add: read_def Let_def f(1) x boolean_xor_level [OF assms(4) m])
  also have "\<dots> = v"
    using boolean_xor_cancel [OF assms(4) m] by (simp add: x)
  finally show ?thesis
    using f(4) w by simp
qed

theorem read_after_write_witness:
  "GPIOPinDetail 26 [''low''] hw_reset = (Inr (pin_state 26 {A_ActiveLow} {}), hw_reset) \<and>
   run validateWith conflictsWith [SetAttr {A_Output}] (pin_state 26 {A_ActiveLow} {}, hw_reset) =
     (pin_state 26 {A_ActiveLow} {A_Output},
      pinMode 26 OUTPUT (digitalWrite 26 (ucast HIGH) hw_reset)) \<and>
   has (pin_currentMode (pin_state 26 {A_ActiveLow} {A_Output})) A_Output \<and>
   pin_readWriteMask (pin_state 26 {A_ActiveLow} {A_Output}) = HIGH \<and>
   read (pin_state 26 {A_ActiveLow} {A_Output})
     (digitalWrite 26 (ucast (HIGH XOR HIGH))
        (pinMode 26 OUTPUT (digitalWrite 26 (ucast HIGH) hw_reset))) = HIGH \<and>
   GPIOPinDetail 26 [] hw_reset = (Inr (pin_state 26 {} {}), hw_reset) \<and>
   run validateWith conflictsWith [SetAttr {A_Output}] (pin_state 26 {} {}, hw_reset) =
     (pin_state 26 {} {A_Output}, pinMode 26 OUTPUT (digitalWrite 26 (ucast LOW) hw_reset)) \<and>
   pin_readWriteMask (pin_state 26 {} {A_Output}) = LOW \<and>
   read (pin_state 26 {} {A_Output})
     (digitalWrite 26 (ucast (LOW XOR HIGH))
        (pinMode 26 OUTPUT (digitalWrite 26 (ucast LOW) hw_reset))) = HIGH"
proof -
  have c1: "GPIOPinDetail 26 [''low''] hw_reset =
      (Inr (pin_state 26 {A_ActiveLow} {}), hw_reset)"
    by (simp add: construct_low caps_26 PinCapabilities_None_def)
  have r1: "run validateWith conflictsWith [SetAttr {A_Output}]
        (pin_state 26 {A_ActiveLow} {}, hw_reset) =
      (pin_state 26 {A_ActiveLow} {A_Output},
       pinMode 26 OUTPUT (digitalWrite 26 (ucast HIGH) hw_reset))"
    by (simp add: set_output_26_low)
  have o1: "has (pin_currentMode (pin_state 26 {A_ActiveLow} {A_Output})) A_Output"
    by (simp add: has_def)
  have c2: "GPIOPinDetail 26 [] hw_reset = (Inr (pin_state 26 {} {}), hw_reset)"
    by (simp add: construct_no_options caps_26 PinCapabilities_None_def)
  have r2: "run validateWith conflictsWith [SetAttr {A_Output}] (pin_state 26 {} {}, hw_reset) =
      (pin_state 26 {} {A_Output}, pinMode 26 OUTPUT (digitalWrite 26 (ucast LOW) hw_reset))"
    by (simp add: set_output_26)
  have o2: "has (pin_currentMode (pin_state 26 {} {A_Output})) A_Output"
    by (simp add: has_def)
  have v: "HIGH = LOW \<or> HIGH = HIGH"
    by simp
  from read_after_write [OF c1 r1 o1 v] read_after_write [OF c2 r2 o2 v] c1 r1 o1 c2 r2
  show ?thesis
    by (simp add: has_def)
qed


subsection \<open>The level that setAttr drives\<close>

text \<open>
  C6, as the code has it. Take a pin constructed from any options and used through
  any sequence of calls. A \<open>setAttr\<close> that succeeds with \<^verbatim>\<open>Output\<close> in the request
  has, when it returns, made exactly two calls: \<^verbatim>\<open>__digitalWrite\<close> of (\<^verbatim>\<open>HIGH\<close> when
  the request has \<^verbatim>\<open>InitialOn\<close>, else \<^verbatim>\<open>LOW\<close>) XOR \<^verbatim>\<open>_readWriteMask\<close>, then
  \<^verbatim>\<open>__pinMode\<close>; and the line reads that level. For the options \<^verbatim>\<open>["low"]\<close> and a
  request without \<^verbatim>\<open>InitialOn\<close> the level written is \<^verbatim>\<open>HIGH\<close>.
\<close>

theorem setAttr_output_initial_level:
  assumes "GPIOPinDetail index options hw0 = (Inr p0, h0)"
    and "run validate conflicts cs (p0, h0) = (p, hw)"
    and "setAttr validate conflicts p val hw = (Inr (), p', hw')"
    and "has val A_Output"
  shows "pin_readWriteMask p = (if ''low'' \<in> set options then HIGH else LOW) \<and>
         calls hw' =
           calls hw @
           [DigitalWrite index
              (ucast ((if has val A_InitialOn then HIGH else LOW) XOR pin_readWriteMask p)),
            PinMode index (pinModeValue_of p val)] \<and>
         digitalRead index hw' =
           (if has val A_InitialOn then HIGH else LOW) XOR pin_readWriteMask p \<and>
         (options = [''low''] \<and> \<not> has val A_InitialOn \<longrightarrow>
            calls hw' =
              calls hw @ [DigitalWrite index (ucast HIGH), PinMode index (pinModeValue_of p val)] \<and>
            digitalRead index hw' = HIGH)"
proof -
  note f = reached_fields [OF assms(1,2)]
  from f(4) have m: "pin_readWriteMask p = LOW \<or> pin_readWriteMask p = HIGH"
    by simp
  define on where "on = (if has val A_InitialOn then HIGH else LOW)"
  have b: "on = LOW \<or> on = HIGH"
    by (simp add: on_def)
  from assms(3) have ok: "fst (setAttr validate conflicts p val hw) = Inr ()"
    and hw': "hw' = snd (snd (setAttr validate conflicts p val hw))"
    by simp_all
  from setAttr_success [OF ok] assms(4) hw'
  have eq: "hw' = pinMode index (pinModeValue_of p val)
      (digitalWrite index (ucast (on XOR pin_readWriteMask p)) hw)"
    by (simp add: f(1) initial_level_def on_def)
  have c: "calls hw' =
      calls hw @
      [DigitalWrite index (ucast (on XOR pin_readWriteMask p)),
       PinMode index (pinModeValue_of p val)]"
    by (simp add: eq pinMode_def digitalWrite_def)
  have "digitalRead index hw' =
      digitalRead index (digitalWrite index (ucast (on XOR pin_readWriteMask p)) hw)"
    by (simp add: eq pinMode_def digitalRead_def)
  then have d: "digitalRead index hw' = on XOR pin_readWriteMask p"
    by (simp add: boolean_xor_level [OF b m])
  have low: "options = [''low''] \<and> \<not> has val A_InitialOn \<longrightarrow>
      on XOR pin_readWriteMask p = HIGH"
    by (simp add: on_def f(4) LOW_def)
  from f(4) c d low show ?thesis
    unfolding on_def by auto
qed

theorem setAttr_output_initial_level_witness:
  "GPIOPinDetail 26 [''low''] hw_reset = (Inr (pin_state 26 {A_ActiveLow} {}), hw_reset) \<and>
   run validateWith conflictsWith [] (pin_state 26 {A_ActiveLow} {}, hw_reset) =
     (pin_state 26 {A_ActiveLow} {}, hw_reset) \<and>
   setAttr validateWith conflictsWith (pin_state 26 {A_ActiveLow} {}) {A_Output} hw_reset =
     (Inr (), pin_state 26 {A_ActiveLow} {A_Output},
      pinMode 26 OUTPUT (digitalWrite 26 (ucast HIGH) hw_reset)) \<and>
   has {A_Output} A_Output \<and> \<not> has {A_Output} A_InitialOn \<and>
   calls (pinMode 26 OUTPUT (digitalWrite 26 (ucast HIGH) hw_reset)) =
     [DigitalWrite 26 (ucast HIGH), PinMode 26 OUTPUT] \<and>
   digitalRead 26 (pinMode 26 OUTPUT (digitalWrite 26 (ucast HIGH) hw_reset)) = HIGH \<and>
   GPIOPinDetail 26 [] hw_reset = (Inr (pin_state 26 {} {}), hw_reset) \<and>
   setAttr validateWith conflictsWith (pin_state 26 {} {}) {A_Output, A_InitialOn} hw_reset =
     (Inr (), pin_state 26 {} {A_Output, A_InitialOn},
      pinMode 26 OUTPUT (digitalWrite 26 (ucast HIGH) hw_reset)) \<and>
   has {A_Output, A_InitialOn} A_InitialOn \<and>
   pin_readWriteMask (pin_state 26 {} {}) = LOW \<and>
   digitalRead 26 (pinMode 26 OUTPUT (digitalWrite 26 (ucast HIGH) hw_reset)) = HIGH"
proof -
  have c: "GPIOPinDetail 26 [''low''] hw_reset =
      (Inr (pin_state 26 {A_ActiveLow} {}), hw_reset)"
    by (simp add: construct_low caps_26 PinCapabilities_None_def)
  have r: "run validateWith conflictsWith [] (pin_state 26 {A_ActiveLow} {}, hw_reset) =
      (pin_state 26 {A_ActiveLow} {}, hw_reset)"
    by simp
  have o: "has {A_Output} A_Output" "\<not> has {A_Output} A_InitialOn"
    "has {A_Output, A_InitialOn} A_Output" "has {A_Output, A_InitialOn} A_InitialOn"
    by (simp_all add: has_def)
  have m: "pinModeValue_of (pin_state 26 {A_ActiveLow} {}) {A_Output} = OUTPUT"
    by (simp add: pinModeValue_of_def has_def)
  have c1: "GPIOPinDetail 26 [] hw_reset = (Inr (pin_state 26 {} {}), hw_reset)"
    by (simp add: construct_no_options caps_26 PinCapabilities_None_def)
  have r1: "run validateWith conflictsWith [] (pin_state 26 {} {}, hw_reset) =
      (pin_state 26 {} {}, hw_reset)"
    by simp
  from setAttr_output_initial_level [OF c r set_output_26_low o(1)]
    setAttr_output_initial_level [OF c1 r1 set_output_on_26 o(3)]
    c r o m c1
  show ?thesis
    by (simp add: set_output_26_low set_output_on_26 has_def LOW_def hw_reset_calls)
qed

text \<open>
  The scenario of the specification itself: index 26, options \<^verbatim>\<open>["low"]\<close>, then
  \<open>setAttr\<close> of \<^verbatim>\<open>Output\<close> alone. The only level the hardware receives is
  \<^verbatim>\<open>HIGH\<close>; no \<^verbatim>\<open>LOW\<close> is written.
\<close>

theorem active_low_output_counterexample:
  "GPIOPinDetail 26 [''low''] hw_reset = (Inr (pin_state 26 {A_ActiveLow} {}), hw_reset) \<and>
   \<not> has {A_Output} A_InitialOn \<and>
   setAttr validateWith conflictsWith (pin_state 26 {A_ActiveLow} {}) {A_Output} hw_reset =
     (Inr (), pin_state 26 {A_ActiveLow} {A_Output},
      pinMode 26 OUTPUT (digitalWrite 26 (ucast HIGH) hw_reset)) \<and>
   calls (pinMode 26 OUTPUT (digitalWrite 26 (ucast HIGH) hw_reset)) =
     [DigitalWrite 26 (ucast HIGH), PinMode 26 OUTPUT] \<and>
   DigitalWrite 26 (ucast LOW) \<notin>
     set (calls (pinMode 26 OUTPUT (digitalWrite 26 (ucast HIGH) hw_reset))) \<and>
   digitalRead 26 (pinMode 26 OUTPUT (digitalWrite 26 (ucast HIGH) hw_reset)) = HIGH \<and>
   HIGH \<noteq> LOW \<and> (ucast HIGH :: uint8_t) \<noteq> ucast LOW"
  by (simp add: construct_low caps_26 PinCapabilities_None_def set_output_26_low has_def
      pinMode_def digitalWrite_def digitalRead_def hw_reset_def HIGH_def LOW_def)

subsection \<open>Interrupts\<close>

text \<open>
  C8. Without \<^verbatim>\<open>ISR\<close> in \<^verbatim>\<open>_currentMode\<close>, \<open>attachInterrupt\<close> and
  \<open>detachInterrupt\<close> fail with the attribute errors of their \<^verbatim>\<open>Assert\<close>s and change
  nothing; with it, they succeed and pass the index with the callback, its argument
  and the mode, or the index alone, to the interrupt controller. A pin fresh from
  its constructor has no \<^verbatim>\<open>ISR\<close> in \<^verbatim>\<open>_currentMode\<close>, and whenever a pin has it
  after a sequence of calls, one of those calls was a \<open>setAttr\<close> whose request had
  \<^verbatim>\<open>ISR\<close>, which succeeded on the state it was called in, and whose request is the
  \<^verbatim>\<open>_currentMode\<close> now. Right after a \<open>setAttr\<close> that succeeds with \<^verbatim>\<open>ISR\<close> in the
  request, both operations succeed.
\<close>

theorem interrupt_requires_isr:
  "(\<not> has (pin_currentMode p) A_ISR \<longrightarrow>
      attachInterrupt p callback arg mode hw =
        (Inl (AttributeError
                (''Pin has no ISR attribute, which means 'setAttr' was not set, '' @
                 ''or the pin doesn't support ISR's. Cannot bind ISR.'')),
         p, hw) \<and>
      detachInterrupt p hw =
        (Inl (AttributeError
                (''Pin has no ISR attribute, which means 'setAttr' was not set, '' @
                 ''or the pin doesn't support ISR's. Cannot unbind ISR.'')),
         p, hw)) \<and>
   (has (pin_currentMode p) A_ISR \<longrightarrow>
      attachInterrupt p callback arg mode hw =
        (Inr (), p, hw\<lparr>calls := calls hw @ [AttachInterruptArg (pin_index p) callback arg mode]\<rparr>) \<and>
      detachInterrupt p hw =
        (Inr (), p, hw\<lparr>calls := calls hw @ [DetachInterrupt (pin_index p)]\<rparr>)) \<and>
   (GPIOPinDetail index options hw0 = (Inr p0, h0) \<longrightarrow>
      \<not> has (pin_currentMode p0) A_ISR \<and>
      (run validate conflicts cs (p0, h0) = (p, hw) \<and> has (pin_currentMode p) A_ISR \<longrightarrow>
         (\<exists>pre val post.
            cs = pre @ SetAttr val # post \<and> has val A_ISR \<and>
            fst (setAttr validate conflicts (fst (run validate conflicts pre (p0, h0))) val
                   (snd (run validate conflicts pre (p0, h0)))) = Inr () \<and>
            pin_currentMode p = val))) \<and>
   (setAttr validate conflicts p val hw = (Inr (), p', hw') \<and> has val A_ISR \<longrightarrow>
      attachInterrupt p' callback arg mode hw' =
        (Inr (), p',
         hw'\<lparr>calls := calls hw' @ [AttachInterruptArg (pin_index p) callback arg mode]\<rparr>) \<and>
      detachInterrupt p' hw' =
        (Inr (), p', hw'\<lparr>calls := calls hw' @ [DetachInterrupt (pin_index p)]\<rparr>))"
proof -
  have a: "\<not> has (pin_currentMode p) A_ISR \<longrightarrow>
      attachInterrupt p callback arg mode hw =
        (Inl (AttributeError
                (''Pin has no ISR attribute, which means 'setAttr' was not set, '' @
                 ''or the pin doesn't support ISR's. Cannot bind ISR.'')),
         p, hw) \<and>
      detachInterrupt p hw =
        (Inl (AttributeError
                (''Pin has no ISR attribute, which means 'setAttr' was not set, '' @
                 ''or the pin doesn't support ISR's. Cannot unbind ISR.'')),
         p, hw)"
    by (simp add: attachInterrupt_def detachInterrupt_def)
  have b: "has (pin_currentMode q) A_ISR \<longrightarrow>
      attachInterrupt q callback arg mode h =
        (Inr (), q, h\<lparr>calls := calls h @ [AttachInterruptArg (pin_index q) callback arg mode]\<rparr>) \<and>
      detachInterrupt q h =
        (Inr (), q, h\<lparr>calls := calls h @ [DetachInterrupt (pin_index q)]\<rparr>)" for q h
    by (simp add: attachInterrupt_def detachInterrupt_def attachInterruptArg_def
        detachInterrupt_hw_def)
  have c: "GPIOPinDetail index options hw0 = (Inr p0, h0) \<longrightarrow>
      \<not> has (pin_currentMode p0) A_ISR \<and>
      (run validate conflicts cs (p0, h0) = (p, hw) \<and> has (pin_currentMode p) A_ISR \<longrightarrow>
         (\<exists>pre val post.
            cs = pre @ SetAttr val # post \<and> has val A_ISR \<and>
            fst (setAttr validate conflicts (fst (run validate conflicts pre (p0, h0))) val
                   (snd (run validate conflicts pre (p0, h0)))) = Inr () \<and>
            pin_currentMode p = val))"
  proof (intro impI conjI)
    assume ctor: "GPIOPinDetail index options hw0 = (Inr p0, h0)"
    from constructed_fields(4) [OF ctor]
    show fresh: "\<not> has (pin_currentMode p0) A_ISR"
      by (simp add: has_def PinAttributes_None_def)
    assume "run validate conflicts cs (p0, h0) = (p, hw) \<and> has (pin_currentMode p) A_ISR"
    then have r: "fst (run validate conflicts cs (p0, h0)) = p"
      and isr: "has (pin_currentMode p) A_ISR"
      by simp_all
    from run_mode [of validate conflicts cs "(p0, h0)"] r
    have "pin_currentMode p = pin_currentMode p0 \<or>
      (\<exists>pre val post. cs = pre @ SetAttr val # post \<and>
         fst (setAttr validate conflicts (fst (run validate conflicts pre (p0, h0))) val
                (snd (run validate conflicts pre (p0, h0)))) = Inr () \<and>
         pin_currentMode p = val)"
      by simp
    then show "\<exists>pre val post.
        cs = pre @ SetAttr val # post \<and> has val A_ISR \<and>
        fst (setAttr validate conflicts (fst (run validate conflicts pre (p0, h0))) val
               (snd (run validate conflicts pre (p0, h0)))) = Inr () \<and>
        pin_currentMode p = val"
    proof
      assume "pin_currentMode p = pin_currentMode p0"
      with isr fresh show ?thesis by simp
    next
      assume "\<exists>pre val post. cs = pre @ SetAttr val # post \<and>
         fst (setAttr validate conflicts (fst (run validate conflicts pre (p0, h0))) val
                (snd (run validate conflicts pre (p0, h0)))) = Inr () \<and>
         pin_currentMode p = val"
      then obtain pre val post where e: "cs = pre @ SetAttr val # post"
        "fst (setAttr validate conflicts (fst (run validate conflicts pre (p0, h0))) val
                (snd (run validate conflicts pre (p0, h0)))) = Inr ()"
        "pin_currentMode p = val"
        by blast
      from e(3) isr have "has val A_ISR"
        by simp
      with e show ?thesis
        by blast
    qed
  qed
  have d: "setAttr validate conflicts p val hw = (Inr (), p', hw') \<and> has val A_ISR \<longrightarrow>
      attachInterrupt p' callback arg mode hw' =
        (Inr (), p',
         hw'\<lparr>calls := calls hw' @ [AttachInterruptArg (pin_index p) callback arg mode]\<rparr>) \<and>
      detachInterrupt p' hw' =
        (Inr (), p', hw'\<lparr>calls := calls hw' @ [DetachInterrupt (pin_index p)]\<rparr>)"
  proof
    assume h: "setAttr validate conflicts p val hw = (Inr (), p', hw') \<and> has val A_ISR"
    then have ok: "fst (setAttr validate conflicts p val hw) = Inr ()"
      and p': "p' = fst (snd (setAttr validate conflicts p val hw))"
      by simp_all
    from p' ok have "p' = p\<lparr>pin_currentMode := val\<rparr>"
      by (simp add: setAttr_pin)
    then have "has (pin_currentMode p') A_ISR" "pin_index p' = pin_index p"
      using h by simp_all
    with b [of p' hw'] show "attachInterrupt p' callback arg mode hw' =
        (Inr (), p',
         hw'\<lparr>calls := calls hw' @ [AttachInterruptArg (pin_index p) callback arg mode]\<rparr>) \<and>
      detachInterrupt p' hw' =
        (Inr (), p', hw'\<lparr>calls := calls hw' @ [DetachInterrupt (pin_index p)]\<rparr>)"
      by simp
  qed
  from a b [of p hw] c d show ?thesis
    by blast
qed


theorem interrupt_requires_isr_witness:
  "GPIOPinDetail 26 [] hw_reset = (Inr (pin_state 26 {} {}), hw_reset) \<and>
   \<not> has (pin_currentMode (pin_state 26 {} {})) A_ISR \<and>
   attachInterrupt (pin_state 26 {} {}) 7 9 1 hw_reset =
     (Inl (AttributeError
             (''Pin has no ISR attribute, which means 'setAttr' was not set, '' @
              ''or the pin doesn't support ISR's. Cannot bind ISR.'')),
      pin_state 26 {} {}, hw_reset) \<and>
   detachInterrupt (pin_state 26 {} {}) hw_reset =
     (Inl (AttributeError
             (''Pin has no ISR attribute, which means 'setAttr' was not set, '' @
              ''or the pin doesn't support ISR's. Cannot unbind ISR.'')),
      pin_state 26 {} {}, hw_reset) \<and>
   setAttr validateWith conflictsWith (pin_state 26 {} {}) {A_Input, A_ISR} hw_reset =
     (Inr (), pin_state 26 {} {A_Input, A_ISR}, pinMode 26 INPUT hw_reset) \<and>
   has {A_Input, A_ISR} A_ISR \<and>
   run validateWith conflictsWith [Read, SetAttr {A_Input, A_ISR}, Write HIGH]
       (pin_state 26 {} {}, hw_reset) =
     (pin_state 26 {} {A_Input, A_ISR}, pinMode 26 INPUT hw_reset) \<and>
   has (pin_currentMode (pin_state 26 {} {A_Input, A_ISR})) A_ISR \<and>
   (\<exists>pre val post.
      [Read, SetAttr {A_Input, A_ISR}, Write HIGH] = pre @ SetAttr val # post \<and>
      has val A_ISR \<and>
      fst (setAttr validateWith conflictsWith
             (fst (run validateWith conflictsWith pre (pin_state 26 {} {}, hw_reset))) val
             (snd (run validateWith conflictsWith pre (pin_state 26 {} {}, hw_reset)))) =
        Inr () \<and>
      pin_currentMode (pin_state 26 {} {A_Input, A_ISR}) = val) \<and>
   fst (attachInterrupt (pin_state 26 {} {A_Input, A_ISR}) 7 9 1 (pinMode 26 INPUT hw_reset)) =
     Inr () \<and>
   calls (snd (snd (attachInterrupt (pin_state 26 {} {A_Input, A_ISR}) 7 9 1
                      (pinMode 26 INPUT hw_reset)))) =
     [PinMode 26 INPUT, AttachInterruptArg 26 7 9 1] \<and>
   calls (snd (snd (detachInterrupt (pin_state 26 {} {A_Input, A_ISR})
                      (pinMode 26 INPUT hw_reset)))) =
     [PinMode 26 INPUT, DetachInterrupt 26] \<and>
   GPIOPinDetail 34 [] hw_reset = (Inr (pin_state 34 {} {}), hw_reset) \<and>
   fst (setAttr validateWith conflictsWith (pin_state 34 {} {}) {A_Output, A_ISR} hw_reset) =
     Inl (AttributeError ''The requested attributes don't match the pin capabilities'') \<and>
   run validateWith conflictsWith [SetAttr {A_Output, A_ISR}] (pin_state 34 {} {}, hw_reset) =
     (pin_state 34 {} {}, hw_reset) \<and>
   fst (attachInterrupt (pin_state 34 {} {}) 7 9 1 hw_reset) =
     Inl (AttributeError
            (''Pin has no ISR attribute, which means 'setAttr' was not set, '' @
             ''or the pin doesn't support ISR's. Cannot bind ISR.''))"
proof -
  have c: "GPIOPinDetail 26 [] hw_reset = (Inr (pin_state 26 {} {}), hw_reset)"
    by (simp add: construct_no_options caps_26 PinCapabilities_None_def)
  have n: "\<not> has (pin_currentMode (pin_state 26 {} {})) A_ISR"
    "\<not> has (pin_currentMode (pin_state 34 {} {})) A_ISR"
    by (simp_all add: has_def)
  have i: "has {A_Input, A_ISR} A_ISR"
    "has (pin_currentMode (pin_state 26 {} {A_Input, A_ISR})) A_ISR"
    by (simp_all add: has_def)
  have r: "run validateWith conflictsWith [Read, SetAttr {A_Input, A_ISR}, Write HIGH]
        (pin_state 26 {} {}, hw_reset) =
      (pin_state 26 {} {A_Input, A_ISR}, pinMode 26 INPUT hw_reset)"
    by (simp add: set_input_isr_26 write_pin_def has_def)
  have c34: "GPIOPinDetail 34 [] hw_reset = (Inr (pin_state 34 {} {}), hw_reset)"
    by (simp add: construct_no_options caps_34 PinCapabilities_None_def)
  have s34: "setAttr validateWith conflictsWith (pin_state 34 {} {}) {A_Output, A_ISR} hw_reset =
      (Inl (AttributeError ''The requested attributes don't match the pin capabilities''),
       pin_state 34 {} {}, hw_reset)"
    by (simp add: setAttr_eq validateWith_def caps_34)
  have r34: "run validateWith conflictsWith [SetAttr {A_Output, A_ISR}]
        (pin_state 34 {} {}, hw_reset) = (pin_state 34 {} {}, hw_reset)"
    by (simp add: s34)
  note fresh = interrupt_requires_isr [of "pin_state 26 {} {}" 7 9 1 hw_reset 26 "[]" hw_reset
      "pin_state 26 {} {}" hw_reset validateWith conflictsWith "[]" "{A_Input, A_ISR}"
      "pin_state 26 {} {A_Input, A_ISR}" "pinMode 26 INPUT hw_reset"]
  note later = interrupt_requires_isr [of "pin_state 26 {} {A_Input, A_ISR}" 7 9 1
      "pinMode 26 INPUT hw_reset" 26 "[]" hw_reset "pin_state 26 {} {}" hw_reset
      validateWith conflictsWith "[Read, SetAttr {A_Input, A_ISR}, Write HIGH]"
      "{A_Input, A_ISR}" "pin_state 26 {} {A_Input, A_ISR}" "pinMode 26 INPUT hw_reset"]
  note refused = interrupt_requires_isr [of "pin_state 34 {} {}" 7 9 1 hw_reset 34 "[]"
      hw_reset "pin_state 34 {} {}" hw_reset validateWith conflictsWith
      "[SetAttr {A_Output, A_ISR}]" "{A_Output, A_ISR}" "pin_state 34 {} {}" hw_reset]
  from later c r i(2)
  have prov: "\<exists>pre val post.
      [Read, SetAttr {A_Input, A_ISR}, Write HIGH] = pre @ SetAttr val # post \<and>
      has val A_ISR \<and>
      fst (setAttr validateWith conflictsWith
             (fst (run validateWith conflictsWith pre (pin_state 26 {} {}, hw_reset))) val
             (snd (run validateWith conflictsWith pre (pin_state 26 {} {}, hw_reset)))) =
        Inr () \<and>
      pin_currentMode (pin_state 26 {} {A_Input, A_ISR}) = val"
    by blast
  from fresh c n(1) i set_input_isr_26 [of hw_reset]
  have part1: "attachInterrupt (pin_state 26 {} {}) 7 9 1 hw_reset =
     (Inl (AttributeError
             (''Pin has no ISR attribute, which means 'setAttr' was not set, '' @
              ''or the pin doesn't support ISR's. Cannot bind ISR.'')),
      pin_state 26 {} {}, hw_reset) \<and>
   detachInterrupt (pin_state 26 {} {}) hw_reset =
     (Inl (AttributeError
             (''Pin has no ISR attribute, which means 'setAttr' was not set, '' @
              ''or the pin doesn't support ISR's. Cannot unbind ISR.'')),
      pin_state 26 {} {}, hw_reset) \<and>
   fst (attachInterrupt (pin_state 26 {} {A_Input, A_ISR}) 7 9 1 (pinMode 26 INPUT hw_reset)) =
     Inr () \<and>
   calls (snd (snd (attachInterrupt (pin_state 26 {} {A_Input, A_ISR}) 7 9 1
                      (pinMode 26 INPUT hw_reset)))) =
     [PinMode 26 INPUT, AttachInterruptArg 26 7 9 1] \<and>
   calls (snd (snd (detachInterrupt (pin_state 26 {} {A_Input, A_ISR})
                      (pinMode 26 INPUT hw_reset)))) =
     [PinMode 26 INPUT, DetachInterrupt 26]"
    by (simp add: pinMode_def hw_reset_calls)
  from refused n(2)
  have part3: "fst (attachInterrupt (pin_state 34 {} {}) 7 9 1 hw_reset) =
     Inl (AttributeError
            (''Pin has no ISR attribute, which means 'setAttr' was not set, '' @
             ''or the pin doesn't support ISR's. Cannot bind ISR.''))"
    by simp
  from c n(1) i r prov part1 c34 s34 r34 part3 set_input_isr_26 [of hw_reset]
  show ?thesis
    by simp
qed

subsection \<open>The getter attributes\<close>

text \<open>
  C9, as the code has it. For a pin constructed from \<open>options\<close> and used through
  any sequence of calls, \<open>attributes\<close> returns the union of the attributes of the
  option tokens. A \<open>setAttr\<close> that succeeds leaves this value as it was and puts
  the request into \<^verbatim>\<open>_currentMode\<close>, which no getter returns.
\<close>

theorem attributes_getter:
  assumes "GPIOPinDetail index options hw0 = (Inr p0, h0)"
    and "run validate conflicts cs (p0, h0) = (p, hw)"
  shows "attributes p = (\<Union>t \<in> set options. option_flags t) \<and>
         (setAttr validate conflicts p val hw = (Inr (), p', hw') \<longrightarrow>
            attributes p' = attributes p \<and> pin_currentMode p' = val)"
proof -
  note f = reached_fields [OF assms]
  have "setAttr validate conflicts p val hw = (Inr (), p', hw') \<longrightarrow>
      p' = p\<lparr>pin_currentMode := val\<rparr>"
  proof
    assume h: "setAttr validate conflicts p val hw = (Inr (), p', hw')"
    then have "fst (setAttr validate conflicts p val hw) = Inr ()"
      and "p' = fst (snd (setAttr validate conflicts p val hw))"
      by simp_all
    then show "p' = p\<lparr>pin_currentMode := val\<rparr>"
      by (simp add: setAttr_pin)
  qed
  with f(3) show ?thesis
    by (auto simp add: attributes_def)
qed

theorem attributes_getter_witness:
  "GPIOPinDetail 26 [''pu''] hw_reset = (Inr (pin_state 26 {A_PullUp} {}), hw_reset) \<and>
   run validateWith conflictsWith [SetAttr {A_Input}] (pin_state 26 {A_PullUp} {}, hw_reset) =
     (pin_state 26 {A_PullUp} {A_Input}, pinMode 26 (INPUT OR PULLUP) hw_reset) \<and>
   attributes (pin_state 26 {A_PullUp} {A_Input}) = {A_PullUp} \<and>
   setAttr validateWith conflictsWith (pin_state 26 {A_PullUp} {A_Input}) {A_Output}
       (pinMode 26 (INPUT OR PULLUP) hw_reset) =
     (Inr (), pin_state 26 {A_PullUp} {A_Output},
      pinMode 26 (OUTPUT OR PULLUP)
        (digitalWrite 26 (ucast LOW) (pinMode 26 (INPUT OR PULLUP) hw_reset))) \<and>
   attributes (pin_state 26 {A_PullUp} {A_Output}) = {A_PullUp} \<and>
   pin_currentMode (pin_state 26 {A_PullUp} {A_Output}) = {A_Output}"
proof -
  have c: "GPIOPinDetail 26 [''pu''] hw_reset = (Inr (pin_state 26 {A_PullUp} {}), hw_reset)"
    by (simp add: construct_pu caps_26 PinCapabilities_None_def)
  have r: "run validateWith conflictsWith [SetAttr {A_Input}]
        (pin_state 26 {A_PullUp} {}, hw_reset) =
      (pin_state 26 {A_PullUp} {A_Input}, pinMode 26 (INPUT OR PULLUP) hw_reset)"
    by (simp add: setAttr_eq validateWith_def conflictsWith_def caps_26 has_def
        pinModeValue_of_def)
  have s: "setAttr validateWith conflictsWith (pin_state 26 {A_PullUp} {A_Input}) {A_Output}
       (pinMode 26 (INPUT OR PULLUP) hw_reset) =
     (Inr (), pin_state 26 {A_PullUp} {A_Output},
      pinMode 26 (OUTPUT OR PULLUP)
        (digitalWrite 26 (ucast LOW) (pinMode 26 (INPUT OR PULLUP) hw_reset)))"
    by (simp add: setAttr_eq validateWith_def conflictsWith_def caps_26 has_def
        pinModeValue_of_def initial_level_def LOW_def)
  from attributes_getter [OF c r, of "{A_Output}" "pin_state 26 {A_PullUp} {A_Output}"
      "pinMode 26 (OUTPUT OR PULLUP)
        (digitalWrite 26 (ucast LOW) (pinMode 26 (INPUT OR PULLUP) hw_reset))"]
    c r s
  show ?thesis
    by (simp add: option_flags_def)
qed

text \<open>
  Index 26 without options: after the successful \<open>setAttr\<close> of \<^verbatim>\<open>Output\<close> the
  getter returns the empty set, not the request.
\<close>

theorem attributes_getter_counterexample:
  "GPIOPinDetail 26 [] hw_reset = (Inr (pin_state 26 {} {}), hw_reset) \<and>
   setAttr validateWith conflictsWith (pin_state 26 {} {}) {A_Output} hw_reset =
     (Inr (), pin_state 26 {} {A_Output},
      pinMode 26 OUTPUT (digitalWrite 26 (ucast LOW) hw_reset)) \<and>
   attributes (pin_state 26 {} {A_Output}) = {} \<and>
   attributes (pin_state 26 {} {A_Output}) \<noteq> {A_Output}"
  by (simp add: construct_no_options caps_26 PinCapabilities_None_def set_output_26
      attributes_def)

end
